theory Spec2Isabelle
  imports Complex_Main "HOL-Library.Word"
begin

section \<open>Values exchanged with the remote services\<close>

text \<open>
  The value that \<^verbatim>\<open>response.json()\<close> returns: Python's image of a JSON document.
  A dict is an association list read with \<open>map_of\<close>. Floats are rationals; the
  non-finite floats are not represented.
\<close>

datatype pyval =
    PNone
  | PBool bool
  | PInt int
  | PFloat rat
  | PStr string
  | PList "pyval list"
  | PDict "(string \<times> pyval) list"

text \<open>Python's truth value of an object, as used by \<^verbatim>\<open>if x:\<close> and \<^verbatim>\<open>x or y\<close>.\<close>

fun py_truthy :: "pyval \<Rightarrow> bool" where
  "py_truthy PNone = False"
| "py_truthy (PBool b) = b"
| "py_truthy (PInt i) = (i \<noteq> 0)"
| "py_truthy (PFloat r) = (r \<noteq> 0)"
| "py_truthy (PStr s) = (s \<noteq> [])"
| "py_truthy (PList xs) = (xs \<noteq> [])"
| "py_truthy (PDict kvs) = (kvs \<noteq> [])"

definition py_or :: "pyval \<Rightarrow> pyval \<Rightarrow> pyval" where
  "py_or a b = (if py_truthy a then a else b)"

fun type_name :: "pyval \<Rightarrow> string" where
  "type_name PNone = ''NoneType''"
| "type_name (PBool b) = ''bool''"
| "type_name (PInt i) = ''int''"
| "type_name (PFloat r) = ''float''"
| "type_name (PStr s) = ''str''"
| "type_name (PList xs) = ''list''"
| "type_name (PDict kvs) = ''dict''"

subsection \<open>Exceptions\<close>

text \<open>
  The exceptions that the handlers of the source tell apart. \<open>ConnectError\<close> is a
  subclass of httpx's \<open>RequestError\<close>; the constructor \<open>RequestError\<close> stands for
  its other subclasses (timeouts, read errors). \<open>HTTPStatusError\<close> carries the
  status code. Each exception carries the text of \<^verbatim>\<open>str(e)\<close>.
\<close>

datatype exn =
    ConnectError string
  | RequestError string
  | HTTPStatusError nat string
  | JSONDecodeError string
  | AttributeError string
  | OSError string
  | OverflowError string

fun str_exn :: "exn \<Rightarrow> string" where
  "str_exn (ConnectError m) = m"
| "str_exn (RequestError m) = m"
| "str_exn (HTTPStatusError c m) = m"
| "str_exn (JSONDecodeError m) = m"
| "str_exn (AttributeError m) = m"
| "str_exn (OSError m) = m"
| "str_exn (OverflowError m) = m"

fun is_RequestError :: "exn \<Rightarrow> bool" where
  "is_RequestError (ConnectError m) = True"
| "is_RequestError (RequestError m) = True"
| "is_RequestError e = False"

text \<open>\<^verbatim>\<open>d.get(key, default)\<close>: only a dict has the method.\<close>

fun py_get :: "pyval \<Rightarrow> string \<Rightarrow> pyval \<Rightarrow> exn + pyval" where
  "py_get (PDict kvs) k d = Inr (case map_of kvs k of Some v \<Rightarrow> v | None \<Rightarrow> d)"
| "py_get v k d =
     Inl (AttributeError ([CHR 0x27] @ type_name v @ [CHR 0x27] @
            '' object has no attribute '' @ [CHR 0x27] @ ''get'' @ [CHR 0x27]))"

text \<open>
  \<^verbatim>\<open>data.get("result", {}).get("details", {}).get(k, None)\<close>, lines 175, 176, 317
  and 318.
\<close>

definition details_get :: "pyval \<Rightarrow> string \<Rightarrow> exn + pyval" where
  "details_get data k =
     (case py_get data ''result'' (PDict []) of
        Inl e \<Rightarrow> Inl e
      | Inr r \<Rightarrow>
          (case py_get r ''details'' (PDict []) of
             Inl e \<Rightarrow> Inl e
           | Inr d \<Rightarrow> py_get d k PNone))"

subsection \<open>Decimal text of integers\<close>

fun str_nat :: "nat \<Rightarrow> string" where
  "str_nat n =
     (if n < 10 then [char_of (48 + n)]
      else str_nat (n div 10) @ [char_of (48 + n mod 10)])"

declare str_nat.simps [simp del]

definition str_int :: "int \<Rightarrow> string" where
  "str_int i = (if i < 0 then ''-'' @ str_nat (nat (- i)) else str_nat (nat i))"

subsection \<open>HTTP\<close>

type_synonym bytes = "8 word list"

text \<open>
  A response of a remote service. \<open>json\<close> is what \<^verbatim>\<open>response.json()\<close> gives:
  the parsed body, or the text of the decoding error. \<open>status_error_text\<close> is the text
  of the exception that \<^verbatim>\<open>raise_for_status()\<close> builds for this response.
\<close>

record response =
  status_code :: nat
  status_error_text :: string
  json :: "string + pyval"
  content :: bytes

text \<open>What a request brings back: an exception of the client, or a response.\<close>

datatype reply = Raises exn | Responds response

text \<open>httpx: \<^verbatim>\<open>raise_for_status()\<close> raises unless the status is 2xx.\<close>

definition is_success :: "response \<Rightarrow> bool" where
  "is_success r = (200 \<le> status_code r \<and> status_code r < 300)"

definition raise_for_status :: "response \<Rightarrow> exn + unit" where
  "raise_for_status r =
     (if is_success r then Inr ()
      else Inl (HTTPStatusError (status_code r) (status_error_text r)))"

text \<open>
  The world outside the process during one request: what each remote service answers,
  and whether \<^verbatim>\<open>open(output_filename, 'wb')\<close> raises (with which text).
\<close>

record env =
  atot_server :: reply
  ttot_server :: reply
  tts_server :: "pyval \<Rightarrow> reply"
  open_error :: "string option"

definition atot_url :: string where
  "atot_url = ''http://1.20.15.20:8000/run-model''"

definition ttot_url :: string where
  "ttot_url = ''http://20.20.15.20:8000/generate''"

definition tts_url :: string where
  "tts_url = ''http://20.20.15.1:8000/generate-speech/''"

section \<open>State of the process\<close>

definition USER_ID :: int where
  "USER_ID = 10"

text \<open>The class \<open>SharedData\<close>: process-wide attributes, all \<open>None\<close> at start.\<close>

record SharedData =
  user_id :: pyval
  input_wav :: pyval
  atot_text :: pyval
  ttot_text :: pyval

definition SharedData_init :: SharedData where
  "SharedData_init =
     \<lparr>user_id = PNone, input_wav = PNone, atot_text = PNone, ttot_text = PNone\<rparr>"

text \<open>
  A row of the table \<open>users\<close> without its primary key: the table is a map from the
  key \<open>id\<close> to the four JSON columns. A column holds a list or is null.
\<close>

record UserDB =
  input_wav_list :: "pyval list option"
  atot_text_list :: "pyval list option"
  ttot_text_list :: "pyval list option"
  output_wav_list :: "pyval list option"

type_synonym database = "int \<rightharpoonup> UserDB"

text \<open>The pydantic model \<open>UserData\<close>: a row together with its key.\<close>

record UserData =
  uid :: int
  ud_input_wav_list :: "pyval list option"
  ud_atot_text_list :: "pyval list option"
  ud_ttot_text_list :: "pyval list option"
  ud_output_wav_list :: "pyval list option"

text \<open>Effects that leave the process, in the order they happen.\<close>

datatype event =
    HttpGet string
  | HttpPost string pyval
  | FileWrite string
  | DbCommit

record world =
  shared :: SharedData
  db :: database
  files :: "string \<rightharpoonup> bytes"
  log :: "event list"

text \<open>\<^verbatim>\<open>xs or []\<close> on a column.\<close>

fun or_empty :: "pyval list option \<Rightarrow> pyval list" where
  "or_empty None = []"
| "or_empty (Some xs) = xs"

text \<open>
  What leaves a route instead of a return value: \<^verbatim>\<open>HTTPException(status_code, detail)\<close>
  raised by the code, or any other exception, which no handler of the route catches (the
  framework answers 500).
\<close>

datatype route_failure = HTTPException nat string | Unhandled exn

text \<open>
  The column \<open>id\<close> is an SQLite \<open>INTEGER\<close>: a signed 64-bit value. Binding a Python
  int outside this range to a query raises \<open>OverflowError\<close> before any row is looked at.
  \<^verbatim>\<open>db.query(UserDB).filter(UserDB.id == k).first()\<close> is therefore the row at \<open>k\<close>, or
  \<open>None\<close>, for a key in the range, and an exception otherwise. The keys of stored rows
  are in the range. (The fixed \<open>USER_ID\<close> is 10, so the queries of lines 91, 209 and 370
  are plain lookups.)
\<close>

definition sqlite_integer :: "int \<Rightarrow> bool" where
  "sqlite_integer k = (- (2 ^ 63) \<le> k \<and> k < 2 ^ 63)"

definition query_first :: "database \<Rightarrow> int \<Rightarrow> exn + UserDB option" where
  "query_first d k =
     (if sqlite_integer k then Inr (d k)
      else Inl (OverflowError ''Python int too large to convert to SQLite INTEGER''))"

section \<open>Message texts\<close>

text \<open>The string literals of the source, as UTF-8 bytes.\<close>

definition msg_atot_unreachable :: string where
  \<comment> \<open>line 180: the text before str(e)\<close>
  "msg_atot_unreachable =
     ''atot '' @ [CHR 0xEC, CHR 0x84, CHR 0x9C, CHR 0xEB, CHR 0xB2, CHR 0x84] @
     [CHR 0xEC, CHR 0x97, CHR 0x90] @ '' '' @
     [CHR 0xEC, CHR 0x97, CHR 0xB0, CHR 0xEA, CHR 0xB2, CHR 0xB0] @
     [CHR 0xED, CHR 0x95, CHR 0xA0] @ '' '' @ [CHR 0xEC, CHR 0x88, CHR 0x98] @ '' '' @
     [CHR 0xEC, CHR 0x97, CHR 0x86, CHR 0xEC, CHR 0x8A, CHR 0xB5] @
     [CHR 0xEB, CHR 0x8B, CHR 0x88, CHR 0xEB, CHR 0x8B, CHR 0xA4] @ '': ''"

definition msg_unknown_error :: string where
  \<comment> \<open>lines 182 and 199: the text before str(e)\<close>
  "msg_unknown_error =
     [CHR 0xEC, CHR 0x95, CHR 0x8C] @ '' '' @ [CHR 0xEC, CHR 0x88, CHR 0x98] @ '' '' @
     [CHR 0xEC, CHR 0x97, CHR 0x86, CHR 0xEB, CHR 0x8A, CHR 0x94] @ '' '' @
     [CHR 0xEC, CHR 0x98, CHR 0xA4, CHR 0xEB, CHR 0xA5, CHR 0x98] @ '': ''"

definition msg_ttot_unreachable :: string where
  \<comment> \<open>line 197: the text before str(e)\<close>
  "msg_ttot_unreachable =
     ''ttot '' @ [CHR 0xEC, CHR 0x84, CHR 0x9C, CHR 0xEB, CHR 0xB2, CHR 0x84] @
     [CHR 0xEC, CHR 0x97, CHR 0x90] @ '' '' @
     [CHR 0xEC, CHR 0x97, CHR 0xB0, CHR 0xEA, CHR 0xB2, CHR 0xB0] @
     [CHR 0xED, CHR 0x95, CHR 0xA0] @ '' '' @ [CHR 0xEC, CHR 0x88, CHR 0x98] @ '' '' @
     [CHR 0xEC, CHR 0x97, CHR 0x86, CHR 0xEC, CHR 0x8A, CHR 0xB5] @
     [CHR 0xEB, CHR 0x8B, CHR 0x88, CHR 0xEB, CHR 0x8B, CHR 0xA4] @ '': ''"

definition msg_no_ttot_text :: string where
  \<comment> \<open>line 206\<close>
  "msg_no_ttot_text =
     ''ttot_text'' @ [CHR 0xEA, CHR 0xB0, CHR 0x80] @ '' '' @
     [CHR 0xEC, CHR 0x97, CHR 0x86, CHR 0xEC, CHR 0x8A, CHR 0xB5] @
     [CHR 0xEB, CHR 0x8B, CHR 0x88, CHR 0xEB, CHR 0x8B, CHR 0xA4] @ ''. '' @
     [CHR 0xEB, CHR 0xA8, CHR 0xBC, CHR 0xEC, CHR 0xA0, CHR 0x80] @ '' /ttot'' @
     [CHR 0xEC, CHR 0x9D, CHR 0x84] @ '' '' @
     [CHR 0xED, CHR 0x98, CHR 0xB8, CHR 0xEC, CHR 0xB6, CHR 0x9C] @
     [CHR 0xED, CHR 0x95, CHR 0x98, CHR 0xEC, CHR 0x84, CHR 0xB8] @
     [CHR 0xEC, CHR 0x9A, CHR 0x94]"

definition msg_user_missing_tail_dot :: string where
  \<comment> \<open>line 211: the text after the user id\<close>
  "msg_user_missing_tail_dot =
     [CHR 0xEB, CHR 0xA5, CHR 0xBC] @ '' '' @
     [CHR 0xEC, CHR 0xB0, CHR 0xBE, CHR 0xEC, CHR 0x9D, CHR 0x84] @ '' '' @
     [CHR 0xEC, CHR 0x88, CHR 0x98] @ '' '' @
     [CHR 0xEC, CHR 0x97, CHR 0x86, CHR 0xEC, CHR 0x8A, CHR 0xB5] @
     [CHR 0xEB, CHR 0x8B, CHR 0x88, CHR 0xEB, CHR 0x8B, CHR 0xA4] @ ''.''"

definition msg_user_missing_tail :: string where
  \<comment> \<open>line 372: the text after the user id\<close>
  "msg_user_missing_tail =
     [CHR 0xEB, CHR 0xA5, CHR 0xBC] @ '' '' @
     [CHR 0xEC, CHR 0xB0, CHR 0xBE, CHR 0xEC, CHR 0x9D, CHR 0x84] @ '' '' @
     [CHR 0xEC, CHR 0x88, CHR 0x98] @ '' '' @
     [CHR 0xEC, CHR 0x97, CHR 0x86, CHR 0xEC, CHR 0x8A, CHR 0xB5] @
     [CHR 0xEB, CHR 0x8B, CHR 0x88, CHR 0xEB, CHR 0x8B, CHR 0xA4]"

definition msg_tts_empty_dot :: string where
  \<comment> \<open>line 237\<close>
  "msg_tts_empty_dot =
     ''TTS '' @ [CHR 0xEC, CHR 0x84, CHR 0x9C, CHR 0xEB, CHR 0xB2, CHR 0x84] @
     [CHR 0xEC, CHR 0x97, CHR 0x90, CHR 0xEC, CHR 0x84, CHR 0x9C] @ '' '' @
     [CHR 0xEB, CHR 0xB9, CHR 0x88] @ '' '' @
     [CHR 0xEB, CHR 0x8D, CHR 0xB0, CHR 0xEC, CHR 0x9D, CHR 0xB4] @
     [CHR 0xED, CHR 0x84, CHR 0xB0, CHR 0xEB, CHR 0xA5, CHR 0xBC] @ '' '' @
     [CHR 0xEB, CHR 0xB0, CHR 0x9B, CHR 0xEC, CHR 0x95, CHR 0x98] @
     [CHR 0xEC, CHR 0x8A, CHR 0xB5, CHR 0xEB, CHR 0x8B, CHR 0x88] @
     [CHR 0xEB, CHR 0x8B, CHR 0xA4] @ ''.''"

definition msg_tts_connect_long :: string where
  \<comment> \<open>line 241: the text before str(e)\<close>
  "msg_tts_connect_long =
     ''TTS '' @ [CHR 0xEC, CHR 0x84, CHR 0x9C, CHR 0xEB, CHR 0xB2, CHR 0x84] @ '' '' @
     [CHR 0xEC, CHR 0x97, CHR 0xB0, CHR 0xEA, CHR 0xB2, CHR 0xB0] @ '' '' @
     [CHR 0xEC, CHR 0x8B, CHR 0xA4, CHR 0xED, CHR 0x8C, CHR 0xA8] @ '' (port 8004'' @
     [CHR 0xEA, CHR 0xB0, CHR 0x80] @ '' '' @
     [CHR 0xEC, CHR 0x8B, CHR 0xA4, CHR 0xED, CHR 0x96, CHR 0x89] @ '' '' @
     [CHR 0xEC, CHR 0xA4, CHR 0x91, CHR 0xEC, CHR 0x9D, CHR 0xB8] @
     [CHR 0xEC, CHR 0xA7, CHR 0x80] @ '' '' @
     [CHR 0xED, CHR 0x99, CHR 0x95, CHR 0xEC, CHR 0x9D, CHR 0xB8] @ ''): ''"

definition msg_tts_status_long :: string where
  \<comment> \<open>line 244: the text before the status code\<close>
  "msg_tts_status_long =
     ''TTS API '' @ [CHR 0xEC, CHR 0x98, CHR 0xA4, CHR 0xEB, CHR 0xA5, CHR 0x98] @ '' ('' @
     [CHR 0xEC, CHR 0x83, CHR 0x81, CHR 0xED, CHR 0x83, CHR 0x9C] @ '' '' @
     [CHR 0xEC, CHR 0xBD, CHR 0x94, CHR 0xEB, CHR 0x93, CHR 0x9C] @ '': ''"

definition msg_tts_other :: string where
  \<comment> \<open>lines 247 and 412: the text before str(e)\<close>
  "msg_tts_other =
     ''TTS '' @ [CHR 0xEC, CHR 0x98, CHR 0xA4, CHR 0xEB, CHR 0xA5, CHR 0x98] @ '': ''"

definition msg_saved_head :: string where
  \<comment> \<open>line 280: the text before the file name\<close>
  "msg_saved_head =
     [CHR 0xE2, CHR 0x9C, CHR 0x85] @ '' '' @
     [CHR 0xEC, CHR 0x84, CHR 0xB1, CHR 0xEA, CHR 0xB3, CHR 0xB5] @ ''! TTS '' @
     [CHR 0xEC, CHR 0x98, CHR 0xA4, CHR 0xEB, CHR 0x94, CHR 0x94] @
     [CHR 0xEC, CHR 0x98, CHR 0xA4, CHR 0xEB, CHR 0xA5, CHR 0xBC] @ '' '' @ [CHR 0x27]"

definition msg_saved_tail :: string where
  \<comment> \<open>line 280: the text after the file name\<close>
  "msg_saved_tail =
     [CHR 0x27, CHR 0xEB, CHR 0xA1, CHR 0x9C] @ '' '' @
     [CHR 0xEC, CHR 0xA0, CHR 0x80, CHR 0xEC, CHR 0x9E, CHR 0xA5] @
     [CHR 0xED, CHR 0x96, CHR 0x88, CHR 0xEC, CHR 0x8A, CHR 0xB5] @
     [CHR 0xEB, CHR 0x8B, CHR 0x88, CHR 0xEB, CHR 0x8B, CHR 0xA4] @ ''.''"

definition msg_saved_without_tts :: string where
  \<comment> \<open>line 282\<close>
  "msg_saved_without_tts =
     [CHR 0xE2, CHR 0x9A, CHR 0xA0, CHR 0xEF, CHR 0xB8, CHR 0x8F] @ '' '' @
     [CHR 0xEB, CHR 0x8D, CHR 0xB0, CHR 0xEC, CHR 0x9D, CHR 0xB4] @
     [CHR 0xED, CHR 0x84, CHR 0xB0, CHR 0xEB, CHR 0x8A, CHR 0x94] @ '' '' @
     [CHR 0xEC, CHR 0xA0, CHR 0x80, CHR 0xEC, CHR 0x9E, CHR 0xA5] @
     [CHR 0xED, CHR 0x96, CHR 0x88, CHR 0xEC, CHR 0xA7, CHR 0x80] @
     [CHR 0xEB, CHR 0xA7, CHR 0x8C] @ '' TTS '' @
     [CHR 0xEC, CHR 0x83, CHR 0x9D, CHR 0xEC, CHR 0x84, CHR 0xB1] @ '' '' @
     [CHR 0xEC, CHR 0x8B, CHR 0xA4, CHR 0xED, CHR 0x8C, CHR 0xA8]"

definition msg_atot_failed :: string where
  \<comment> \<open>line 329: the text before str(e)\<close>
  "msg_atot_failed =
     ''ATOT '' @ [CHR 0xEC, CHR 0x8B, CHR 0xA4, CHR 0xED, CHR 0x8C, CHR 0xA8] @ '': ''"

definition msg_ttot_failed :: string where
  \<comment> \<open>line 353: the text before str(e)\<close>
  "msg_ttot_failed =
     ''TTOT '' @ [CHR 0xEC, CHR 0x8B, CHR 0xA4, CHR 0xED, CHR 0x8C, CHR 0xA8] @ '': ''"

definition msg_ttot_text_empty :: string where
  \<comment> \<open>line 363\<close>
  "msg_ttot_text_empty =
     ''ttot_text'' @ [CHR 0xEA, CHR 0xB0, CHR 0x80] @ '' '' @
     [CHR 0xEB, CHR 0xB9, CHR 0x84, CHR 0xEC, CHR 0x96, CHR 0xB4] @
     [CHR 0xEC, CHR 0x9E, CHR 0x88, CHR 0xEC, CHR 0x8A, CHR 0xB5] @
     [CHR 0xEB, CHR 0x8B, CHR 0x88, CHR 0xEB, CHR 0x8B, CHR 0xA4]"

definition msg_tts_empty :: string where
  \<comment> \<open>line 402\<close>
  "msg_tts_empty =
     ''TTS '' @ [CHR 0xEC, CHR 0x84, CHR 0x9C, CHR 0xEB, CHR 0xB2, CHR 0x84] @
     [CHR 0xEC, CHR 0x97, CHR 0x90, CHR 0xEC, CHR 0x84, CHR 0x9C] @ '' '' @
     [CHR 0xEB, CHR 0xB9, CHR 0x88] @ '' '' @
     [CHR 0xEB, CHR 0x8D, CHR 0xB0, CHR 0xEC, CHR 0x9D, CHR 0xB4] @
     [CHR 0xED, CHR 0x84, CHR 0xB0, CHR 0xEB, CHR 0xA5, CHR 0xBC] @ '' '' @
     [CHR 0xEB, CHR 0xB0, CHR 0x9B, CHR 0xEC, CHR 0x95, CHR 0x98] @
     [CHR 0xEC, CHR 0x8A, CHR 0xB5, CHR 0xEB, CHR 0x8B, CHR 0x88] @
     [CHR 0xEB, CHR 0x8B, CHR 0xA4]"

definition msg_tts_connect :: string where
  \<comment> \<open>line 406: the text before str(e)\<close>
  "msg_tts_connect =
     ''TTS '' @ [CHR 0xEC, CHR 0x84, CHR 0x9C, CHR 0xEB, CHR 0xB2, CHR 0x84] @ '' '' @
     [CHR 0xEC, CHR 0x97, CHR 0xB0, CHR 0xEA, CHR 0xB2, CHR 0xB0] @ '' '' @
     [CHR 0xEC, CHR 0x8B, CHR 0xA4, CHR 0xED, CHR 0x8C, CHR 0xA8] @ '' (port 8004 '' @
     [CHR 0xED, CHR 0x99, CHR 0x95, CHR 0xEC, CHR 0x9D, CHR 0xB8] @ ''): ''"

definition msg_tts_status :: string where
  \<comment> \<open>line 409: the text before the status code\<close>
  "msg_tts_status =
     ''TTS API '' @ [CHR 0xEC, CHR 0x98, CHR 0xA4, CHR 0xEB, CHR 0xA5, CHR 0x98] @ '' ('' @
     [CHR 0xEC, CHR 0x83, CHR 0x81, CHR 0xED, CHR 0x83, CHR 0x9C] @ '': ''"

section \<open>History endpoints\<close>

text \<open>\<^verbatim>\<open>GET /\<close>, lines 87 to 119: looks up the fixed user and creates it when missing.\<close>

definition read_root :: "world \<Rightarrow> (string \<times> UserData) \<times> world" where
  "read_root w =
     (let (db_user, w1) =
            (case db w USER_ID of
               None \<Rightarrow>
                 (let new_user = \<lparr>input_wav_list = Some [], atot_text_list = Some [],
                                   ttot_text_list = Some [], output_wav_list = Some []\<rparr>
                  in (new_user, w\<lparr>db := (db w)(USER_ID \<mapsto> new_user),
                                   log := log w @ [DbCommit]\<rparr>))
             | Some u \<Rightarrow> (u, w))
      in ((''This is the Backend Server'',
           \<lparr>uid = USER_ID,
            ud_input_wav_list = Some (or_empty (input_wav_list db_user)),
            ud_atot_text_list = Some (or_empty (atot_text_list db_user)),
            ud_ttot_text_list = Some (or_empty (ttot_text_list db_user)),
            ud_output_wav_list = Some (or_empty (output_wav_list db_user))\<rparr>), w1))"

text \<open>
  \<^verbatim>\<open>db.query(UserDB).all()\<close>. The query has no \<^verbatim>\<open>ORDER BY\<close>; the rows come as the
  engine scans the table. The table is SQLite's (line 45) and its key is declared
  \<^verbatim>\<open>Column(Integer, primary_key=True)\<close> (line 52), which makes the key the rowid: a
  full scan walks the table in ascending order of the key. A table has finitely many
  rows.
\<close>

definition query_all :: "database \<Rightarrow> (int \<times> UserDB) list" where
  "query_all d =
     List.map_filter (\<lambda>k. map_option (Pair k) (d k)) (sorted_list_of_set (dom d))"

text \<open>
  \<^verbatim>\<open>GET /users\<close>, lines 127 to 138. The assignments change the loaded objects only;
  nothing is committed. The result is the value the function returns; the check of that
  value against \<open>response_model\<close>, which the framework runs afterwards, is not part of
  it.
\<close>

definition get_users :: "database \<Rightarrow> UserData list" where
  "get_users d =
     map (\<lambda>(k, user).
            \<lparr>uid = k,
             ud_input_wav_list = Some (or_empty (input_wav_list user)),
             ud_atot_text_list = Some (or_empty (atot_text_list user)),
             ud_ttot_text_list = Some (or_empty (ttot_text_list user)),
             ud_output_wav_list = Some (or_empty (output_wav_list user))\<rparr>)
         (query_all d)"

text \<open>\<^verbatim>\<open>GET /users/{user_id}\<close>, lines 143 to 148.\<close>

definition get_user :: "int \<Rightarrow> world \<Rightarrow> (route_failure + UserData) \<times> world" where
  "get_user k w =
     (case query_first (db w) k of
        Inl e \<Rightarrow> (Inl (Unhandled e), w)
      | Inr None \<Rightarrow> (Inl (HTTPException 404 ''User not found''), w)
      | Inr (Some user) \<Rightarrow>
          (Inr \<lparr>uid = k,
                ud_input_wav_list = input_wav_list user,
                ud_atot_text_list = atot_text_list user,
                ud_ttot_text_list = ttot_text_list user,
                ud_output_wav_list = output_wav_list user\<rparr>, w))"

text \<open>\<^verbatim>\<open>GET /users/{user_id}/atot\<close> and \<^verbatim>\<open>GET /users/{user_id}/ttot\<close>, lines 150 to 162.\<close>

definition upload_atot ::
  "int \<Rightarrow> world \<Rightarrow> (route_failure + int \<times> pyval list option) \<times> world" where
  "upload_atot k w =
     (case query_first (db w) k of
        Inl e \<Rightarrow> (Inl (Unhandled e), w)
      | Inr None \<Rightarrow> (Inl (HTTPException 404 ''User not found''), w)
      | Inr (Some user) \<Rightarrow> (Inr (k, atot_text_list user), w))"

definition get_user_ttot ::
  "int \<Rightarrow> world \<Rightarrow> (route_failure + int \<times> pyval list option) \<times> world" where
  "get_user_ttot k w =
     (case query_first (db w) k of
        Inl e \<Rightarrow> (Inl (Unhandled e), w)
      | Inr None \<Rightarrow> (Inl (HTTPException 404 ''User not found''), w)
      | Inr (Some user) \<Rightarrow> (Inr (k, ttot_text_list user), w))"

section \<open>The stages\<close>

text \<open>
  The start of each \<^verbatim>\<open>try\<close> block of the two text stages: the request,
  \<^verbatim>\<open>raise_for_status()\<close>, \<^verbatim>\<open>response.json()\<close>.
\<close>

definition fetch_json :: "reply \<Rightarrow> exn + pyval" where
  "fetch_json rp =
     (case rp of
        Raises e \<Rightarrow> Inl e
      | Responds r \<Rightarrow>
          (case raise_for_status r of
             Inl e \<Rightarrow> Inl e
           | Inr u \<Rightarrow>
               (case json r of
                  Inl m \<Rightarrow> Inl (JSONDecodeError m)
                | Inr data \<Rightarrow> Inr data)))"

text \<open>
  Lines 174 to 178 of \<^verbatim>\<open>/atot\<close>. Each assignment takes effect before the next
  expression is evaluated, so an exception leaves the earlier assignments in place.
  The result is the returned dict: user_id, input_wav, atot_text.
\<close>

definition get_atot_store ::
  "pyval \<Rightarrow> SharedData \<Rightarrow> (exn + pyval \<times> pyval \<times> pyval) \<times> SharedData" where
  "get_atot_store data s =
     (case py_get data ''user_id'' PNone of
        Inl e \<Rightarrow> (Inl e, s)
      | Inr u \<Rightarrow>
          (let s1 = s\<lparr>user_id := u\<rparr> in
           case details_get data ''received_text'' of
             Inl e \<Rightarrow> (Inl e, s1)
           | Inr t \<Rightarrow>
               (let s2 = s1\<lparr>atot_text := t\<rparr> in
                case details_get data ''audio_url'' of
                  Inl e \<Rightarrow> (Inl e, s2)
                | Inr a \<Rightarrow>
                    (let s3 = s2\<lparr>input_wav := a\<rparr>
                     in (Inr (user_id s3, input_wav s3, atot_text s3), s3)))))"

text \<open>\<^verbatim>\<open>GET /atot\<close>, lines 164 to 182. \<open>Inl\<close> is the dict with the key \<open>error\<close>.\<close>

definition get_atot ::
  "env \<Rightarrow> world \<Rightarrow> (string + pyval \<times> pyval \<times> pyval) \<times> world" where
  "get_atot env w =
     (let w1 = w\<lparr>log := log w @ [HttpGet atot_url]\<rparr>;
          (r, s) = (case fetch_json (atot_server env) of
                      Inl e \<Rightarrow> (Inl e, shared w1)
                    | Inr data \<Rightarrow> get_atot_store data (shared w1))
      in ((case r of
             Inl e \<Rightarrow>
               Inl ((if is_RequestError e then msg_atot_unreachable
                     else msg_unknown_error) @ str_exn e)
           | Inr p \<Rightarrow> Inr p),
          w1\<lparr>shared := s\<rparr>))"

text \<open>\<^verbatim>\<open>GET /ttot\<close>, lines 184 to 199. The result is the dict: user_id, ttot_text.\<close>

definition get_ttot_store ::
  "pyval \<Rightarrow> SharedData \<Rightarrow> (exn + pyval \<times> pyval) \<times> SharedData" where
  "get_ttot_store data s =
     (case py_get data ''response'' PNone of
        Inl e \<Rightarrow> (Inl e, s)
      | Inr t \<Rightarrow>
          (let s1 = s\<lparr>ttot_text := t\<rparr> in
           case py_get data ''user_id'' PNone of
             Inl e \<Rightarrow> (Inl e, s1)
           | Inr u \<Rightarrow> (Inr (u, ttot_text s1), s1)))"

definition get_ttot ::
  "env \<Rightarrow> world \<Rightarrow> (string + pyval \<times> pyval) \<times> world" where
  "get_ttot env w =
     (let w1 = w\<lparr>log := log w @ [HttpGet ttot_url]\<rparr>;
          (r, s) = (case fetch_json (ttot_server env) of
                      Inl e \<Rightarrow> (Inl e, shared w1)
                    | Inr data \<Rightarrow> get_ttot_store data (shared w1))
      in ((case r of
             Inl e \<Rightarrow>
               Inl ((if is_RequestError e then msg_ttot_unreachable
                     else msg_unknown_error) @ str_exn e)
           | Inr p \<Rightarrow> Inr p),
          w1\<lparr>shared := s\<rparr>))"

subsection \<open>Speech synthesis\<close>

text \<open>The three local variables of the TTS part, lines 214 to 216 and 378 to 380.\<close>

record tts_vars =
  output_filename :: "string option"
  tts_success :: bool
  tts_error :: "string option"

text \<open>The request of lines 221 to 228 and 384 to 391.\<close>

definition tts_request :: "env \<Rightarrow> pyval \<Rightarrow> exn + bytes" where
  "tts_request env text =
     (case tts_server env (PDict [(''request_text'', text)]) of
        Raises e \<Rightarrow> Inl e
      | Responds r \<Rightarrow>
          (case raise_for_status r of
             Inl e \<Rightarrow> Inl e
           | Inr u \<Rightarrow> Inr (content r)))"

text \<open>
  The \<^verbatim>\<open>try\<close> statement of lines 219 to 248 and 382 to 413. The two copies differ in
  their texts only: \<open>empty_msg\<close> is the text for an empty body, \<open>handler\<close> gives the
  text that the \<^verbatim>\<open>except\<close> clauses build. The file name is assigned before the file
  is opened.
\<close>

definition tts_block ::
  "string \<Rightarrow> (exn \<Rightarrow> string) \<Rightarrow> env \<Rightarrow> pyval \<Rightarrow> world \<Rightarrow> tts_vars \<times> world" where
  "tts_block empty_msg handler env text w =
     (let v0 = \<lparr>output_filename = None, tts_success = False, tts_error = None\<rparr>;
          w1 = w\<lparr>log := log w @ [HttpPost tts_url (PDict [(''request_text'', text)])]\<rparr>
      in case tts_request env text of
           Inl e \<Rightarrow> (v0\<lparr>tts_error := Some (handler e)\<rparr>, w1)
         | Inr wav_file_data \<Rightarrow>
             if wav_file_data \<noteq> [] then
               (let v1 = v0\<lparr>output_filename := Some ''received_audio.wav''\<rparr> in
                case open_error env of
                  Some m \<Rightarrow> (v1\<lparr>tts_error := Some (handler (OSError m))\<rparr>, w1)
                | None \<Rightarrow>
                    (v1\<lparr>tts_success := True\<rparr>,
                     w1\<lparr>files := (files w1)(''received_audio.wav'' \<mapsto> wav_file_data),
                        log := log w1 @ [FileWrite ''received_audio.wav'']\<rparr>))
             else (v0\<lparr>tts_error := Some empty_msg\<rparr>, w1))"

text \<open>The \<^verbatim>\<open>except\<close> clauses of \<^verbatim>\<open>/process-audio\<close>, lines 240 to 248.\<close>

fun process_audio_tts_error :: "exn \<Rightarrow> string" where
  "process_audio_tts_error (ConnectError m) = msg_tts_connect_long @ m"
| "process_audio_tts_error (HTTPStatusError c m) =
     msg_tts_status_long @ str_nat c @ ''): '' @ m"
| "process_audio_tts_error e = msg_tts_other @ str_exn e"

text \<open>The \<^verbatim>\<open>except\<close> clauses of \<^verbatim>\<open>/run-full-pipeline\<close>, lines 405 to 413.\<close>

fun pipeline_tts_error :: "exn \<Rightarrow> string" where
  "pipeline_tts_error (ConnectError m) = msg_tts_connect @ m"
| "pipeline_tts_error (HTTPStatusError c m) = msg_tts_status @ str_nat c @ '')''"
| "pipeline_tts_error e = msg_tts_other @ str_exn e"

subsection \<open>Saving to the database\<close>

text \<open>
  Lines 251 to 263 and 416 to 427, the same text in both endpoints: each of the four
  columns is replaced by itself (or the empty list) with one element added.
\<close>

definition append_history :: "SharedData \<Rightarrow> string option \<Rightarrow> UserDB \<Rightarrow> UserDB" where
  "append_history s out_name user =
     (let u1 = (if py_truthy (input_wav s)
                then user\<lparr>input_wav_list := Some (or_empty (input_wav_list user) @ [input_wav s])\<rparr>
                else user\<lparr>input_wav_list := Some (or_empty (input_wav_list user) @ [PNone])\<rparr>);
          u2 = u1\<lparr>atot_text_list :=
                     Some (or_empty (atot_text_list u1) @ [py_or (atot_text s) (PStr [])])\<rparr>;
          u3 = u2\<lparr>ttot_text_list :=
                     Some (or_empty (ttot_text_list u2) @ [py_or (ttot_text s) (PStr [])])\<rparr>
      in (case out_name of
            Some f \<Rightarrow>
              (if f \<noteq> []
               then u3\<lparr>output_wav_list := Some (or_empty (output_wav_list u3) @ [PStr f])\<rparr>
               else u3\<lparr>output_wav_list := Some (or_empty (output_wav_list u3) @ [PNone])\<rparr>)
          | None \<Rightarrow> u3\<lparr>output_wav_list := Some (or_empty (output_wav_list u3) @ [PNone])\<rparr>))"

section \<open>The persist-only endpoint\<close>

text \<open>The dict that \<^verbatim>\<open>/process-audio\<close> returns, lines 269 to 283.\<close>

record process_audio_response =
  pa_user_id :: int
  pa_input_wav :: pyval
  pa_atot_text :: pyval
  pa_ttot_text :: pyval
  pa_output_wav :: "string option"
  pa_output_wav_list :: "pyval list option"
  pa_tts_success :: bool
  pa_message :: string
  pa_tts_error :: "string option option"

text \<open>
  \<^verbatim>\<open>POST /process-audio\<close>, lines 201 to 285. \<open>Inl\<close> is the dict with the key
  \<open>error\<close>. The key \<open>tts_error\<close> of the answer is present only when TTS failed.
\<close>

definition process_audio ::
  "env \<Rightarrow> world \<Rightarrow> (string + process_audio_response) \<times> world" where
  "process_audio env w =
     (if ttot_text (shared w) = PNone then (Inl msg_no_ttot_text, w)
      else
        (case db w USER_ID of
           None \<Rightarrow> (Inl (''User '' @ str_int USER_ID @ msg_user_missing_tail_dot), w)
         | Some user \<Rightarrow>
             (let (v, w1) = tts_block msg_tts_empty_dot process_audio_tts_error env
                              (ttot_text (shared w)) w;
                  user' = append_history (shared w1) (output_filename v) user;
                  w2 = w1\<lparr>db := (db w1)(USER_ID \<mapsto> user'), log := log w1 @ [DbCommit]\<rparr>
              in (Inr \<lparr>pa_user_id = USER_ID,
                       pa_input_wav = input_wav (shared w2),
                       pa_atot_text = atot_text (shared w2),
                       pa_ttot_text = ttot_text (shared w2),
                       pa_output_wav = output_filename v,
                       pa_output_wav_list = output_wav_list user',
                       pa_tts_success = tts_success v,
                       pa_message =
                         (if tts_success v
                          then msg_saved_head @
                               (case output_filename v of Some f \<Rightarrow> f | None \<Rightarrow> ''None'') @
                               msg_saved_tail
                          else msg_saved_without_tts),
                       pa_tts_error = (if tts_success v then None else Some (tts_error v))\<rparr>,
                  w2))))"

section \<open>The full pipeline\<close>

text \<open>The values under the keys \<open>step1_atot\<close>, \<open>step2_ttot\<close> and \<open>step3_tts\<close>.\<close>

datatype atot_step =
    AtotOk pyval pyval pyval  \<comment> \<open>success True: user_id, input_wav, atot_text\<close>
  | AtotFailed string         \<comment> \<open>success False: error\<close>

datatype ttot_step =
    TtotOk pyval pyval        \<comment> \<open>success True: user_id, ttot_text\<close>
  | TtotFailed string         \<comment> \<open>success False: error\<close>

datatype tts_step =
    TtsNotRun string          \<comment> \<open>line 366, success False: error\<close>
  | TtsDone bool "string option" "string option"
                              \<comment> \<open>line 432: success, output_wav, tts_error\<close>

text \<open>
  The dict \<open>result\<close>. The keys \<open>user_id\<close> and \<open>final_data\<close> exist only once lines
  439 and 440 have run; \<open>final_data\<close> is input_wav, atot_text, ttot_text, output_wav.
\<close>

record pipeline_result =
  step1_atot :: "atot_step option"
  step2_ttot :: "ttot_step option"
  step3_tts :: "tts_step option"
  success :: bool
  errors :: "string list"
  result_user_id :: "int option"
  final_data :: "(pyval \<times> pyval \<times> pyval \<times> string option) option"

definition result_init :: pipeline_result where
  "result_init =
     \<lparr>step1_atot = None, step2_ttot = None, step3_tts = None, success = False,
      errors = [], result_user_id = None, final_data = None\<rparr>"

text \<open>Lines 317 to 325: the assignments of step 1 and the dict of the step.\<close>

definition atot_store :: "pyval \<Rightarrow> SharedData \<Rightarrow> (exn + atot_step) \<times> SharedData" where
  "atot_store data s =
     (case details_get data ''received_text'' of
        Inl e \<Rightarrow> (Inl e, s)
      | Inr t \<Rightarrow>
          (let s1 = s\<lparr>atot_text := t\<rparr> in
           case details_get data ''audio_url'' of
             Inl e \<Rightarrow> (Inl e, s1)
           | Inr a \<Rightarrow>
               (let s2 = s1\<lparr>input_wav := a\<rparr> in
                case py_get data ''user_id'' PNone of
                  Inl e \<Rightarrow> (Inl e, s2)
                | Inr u \<Rightarrow> (Inr (AtotOk u (input_wav s2) (atot_text s2)), s2))))"

text \<open>Lines 343 to 349: the assignment of step 2 and the dict of the step.\<close>

definition ttot_store :: "pyval \<Rightarrow> SharedData \<Rightarrow> (exn + ttot_step) \<times> SharedData" where
  "ttot_store data s =
     (case py_get data ''response'' PNone of
        Inl e \<Rightarrow> (Inl e, s)
      | Inr t \<Rightarrow>
          (let s1 = s\<lparr>ttot_text := t\<rparr> in
           case py_get data ''user_id'' PNone of
             Inl e \<Rightarrow> (Inl e, s1)
           | Inr u \<Rightarrow> (Inr (TtotOk u (ttot_text s1)), s1)))"

text \<open>The \<^verbatim>\<open>try\<close> blocks of steps 1 and 2, lines 311 to 326 and 337 to 350.\<close>

definition atot_stage :: "env \<Rightarrow> SharedData \<Rightarrow> (exn + atot_step) \<times> SharedData" where
  "atot_stage env s =
     (case fetch_json (atot_server env) of
        Inl e \<Rightarrow> (Inl e, s)
      | Inr data \<Rightarrow> atot_store data s)"

definition ttot_stage :: "env \<Rightarrow> SharedData \<Rightarrow> (exn + ttot_step) \<times> SharedData" where
  "ttot_stage env s =
     (case fetch_json (ttot_server env) of
        Inl e \<Rightarrow> (Inl e, s)
      | Inr data \<Rightarrow> ttot_store data s)"

text \<open>Step 3, lines 359 to 451.\<close>

definition pipeline_step3 ::
  "env \<Rightarrow> pipeline_result \<Rightarrow> world \<Rightarrow> pipeline_result \<times> world" where
  "pipeline_step3 env result w =
     (if ttot_text (shared w) = PNone then
        (result\<lparr>errors := errors result @ [msg_ttot_text_empty],
                step3_tts := Some (TtsNotRun msg_ttot_text_empty)\<rparr>, w)
      else
        (case db w USER_ID of
           None \<Rightarrow>
             (result\<lparr>errors := errors result @
                        [''User '' @ str_int USER_ID @ msg_user_missing_tail]\<rparr>, w)
         | Some user \<Rightarrow>
             (let (v, w1) = tts_block msg_tts_empty pipeline_tts_error env
                              (ttot_text (shared w)) w;
                  user' = append_history (shared w1) (output_filename v) user;
                  w2 = w1\<lparr>db := (db w1)(USER_ID \<mapsto> user'), log := log w1 @ [DbCommit]\<rparr>
              in (result\<lparr>step3_tts :=
                            Some (TtsDone (tts_success v) (output_filename v) (tts_error v)),
                          success := True,
                          result_user_id := Some USER_ID,
                          final_data :=
                            Some (input_wav (shared w2), atot_text (shared w2),
                                  ttot_text (shared w2), output_filename v)\<rparr>,
                  w2))))"

text \<open>Step 2, lines 335 to 357, followed by step 3.\<close>

definition pipeline_step2 ::
  "env \<Rightarrow> pipeline_result \<Rightarrow> world \<Rightarrow> pipeline_result \<times> world" where
  "pipeline_step2 env result w =
     (let w1 = w\<lparr>log := log w @ [HttpGet ttot_url]\<rparr>;
          (r, s) = ttot_stage env (shared w1);
          w2 = w1\<lparr>shared := s\<rparr>
      in case r of
           Inl e \<Rightarrow>
             (let error_msg = msg_ttot_failed @ str_exn e
              in (result\<lparr>errors := errors result @ [error_msg],
                          step2_ttot := Some (TtotFailed error_msg)\<rparr>, w2))
         | Inr step \<Rightarrow> pipeline_step3 env (result\<lparr>step2_ttot := Some step\<rparr>) w2)"

text \<open>\<^verbatim>\<open>POST /run-full-pipeline\<close>, lines 288 to 451.\<close>

definition run_full_pipeline :: "env \<Rightarrow> world \<Rightarrow> pipeline_result \<times> world" where
  "run_full_pipeline env w =
     (let result = result_init;
          w1 = w\<lparr>log := log w @ [HttpGet atot_url]\<rparr>;
          (r, s) = atot_stage env (shared w1);
          w2 = w1\<lparr>shared := s\<rparr>
      in case r of
           Inl e \<Rightarrow>
             (let error_msg = msg_atot_failed @ str_exn e
              in (result\<lparr>errors := errors result @ [error_msg],
                          step1_atot := Some (AtotFailed error_msg)\<rparr>, w2))
         | Inr step \<Rightarrow> pipeline_step2 env (result\<lparr>step1_atot := Some step\<rparr>) w2)"

section \<open>Notions used to state the properties\<close>

text \<open>The effects of one request: what the log gained between two worlds.\<close>

definition new_events :: "world \<Rightarrow> world \<Rightarrow> event list" where
  "new_events w w' = drop (length (log w)) (log w')"

text \<open>
  A remote call fails when the client raises or the status is not 2xx. Synthesize
  fails also on a body of zero length.
\<close>

definition reply_failed :: "reply \<Rightarrow> bool" where
  "reply_failed rp = (case rp of Raises e \<Rightarrow> True | Responds r \<Rightarrow> \<not> is_success r)"

definition tts_failed :: "env \<Rightarrow> pyval \<Rightarrow> bool" where
  "tts_failed env text =
     (case tts_server env (PDict [(''request_text'', text)]) of
        Raises e \<Rightarrow> True
      | Responds r \<Rightarrow> \<not> is_success r \<or> content r = [])"

text \<open>The four sequences of a history have one length, a null column counting as empty.\<close>

definition equal_lengths :: "UserDB \<Rightarrow> bool" where
  "equal_lengths u =
     (length (or_empty (atot_text_list u)) = length (or_empty (input_wav_list u)) \<and>
      length (or_empty (ttot_text_list u)) = length (or_empty (input_wav_list u)) \<and>
      length (or_empty (output_wav_list u)) = length (or_empty (input_wav_list u)))"

subsection \<open>Concrete runs\<close>

definition empty_user :: UserDB where
  "empty_user = \<lparr>input_wav_list = Some [], atot_text_list = Some [],
                  ttot_text_list = Some [], output_wav_list = Some []\<rparr>"

text \<open>A fresh process on an empty database, and the same once user 10 exists.\<close>

definition world_init :: world where
  "world_init = \<lparr>shared = SharedData_init, db = Map.empty, files = Map.empty, log = []\<rparr>"

definition world_ready :: world where
  "world_ready = world_init\<lparr>db := [USER_ID \<mapsto> empty_user]\<rparr>"

definition ok_json :: "pyval \<Rightarrow> reply" where
  "ok_json data =
     Responds \<lparr>status_code = 200, status_error_text = [], json = Inr data, content = []\<rparr>"

definition ok_bytes :: "bytes \<Rightarrow> reply" where
  "ok_bytes bs =
     Responds \<lparr>status_code = 200, status_error_text = [],
               json = Inl ''Expecting value: line 1 column 1 (char 0)'', content = bs\<rparr>"

text \<open>All three services answer well.\<close>

definition scenario_A :: env where
  "scenario_A =
     \<lparr>atot_server = ok_json (PDict [(''user_id'', PInt 7),
        (''result'', PDict [(''details'',
           PDict [(''received_text'', PStr ''hello''), (''audio_url'', PStr ''a.wav'')])])]),
      ttot_server = ok_json (PDict [(''user_id'', PInt 7), (''response'', PStr ''hi there'')]),
      tts_server = (\<lambda>request. ok_bytes [82, 73, 70, 70]),
      open_error = None\<rparr>"

text \<open>The Recognize call times out.\<close>

definition scenario_B :: env where
  "scenario_B = scenario_A\<lparr>atot_server := Raises (RequestError ''timed out'')\<rparr>"

text \<open>The TTS service answers 200 with a body of length zero.\<close>

definition scenario_C :: env where
  "scenario_C = scenario_A\<lparr>tts_server := (\<lambda>request. ok_bytes [])\<rparr>"

text \<open>As before, and the Recognize body has no \<open>result\<close>.\<close>

definition scenario_C_no_result :: env where
  "scenario_C_no_result = scenario_C\<lparr>atot_server := ok_json (PDict [(''user_id'', PInt 7)])\<rparr>"

text \<open>The Generate body has no \<open>response\<close>.\<close>

definition scenario_no_response :: env where
  "scenario_no_response =
     scenario_A\<lparr>ttot_server := ok_json (PDict [(''user_id'', PInt 7)])\<rparr>"

text \<open>The Recognize body carries the empty string as \<open>audio_url\<close>.\<close>

definition scenario_empty_url :: env where
  "scenario_empty_url =
     scenario_A\<lparr>atot_server := ok_json (PDict [(''user_id'', PInt 7),
        (''result'', PDict [(''details'',
           PDict [(''received_text'', PStr ''hello''), (''audio_url'', PStr [])])])])\<rparr>"

text \<open>The Recognize body carries null as \<open>result\<close>.\<close>

definition scenario_null_result :: env where
  "scenario_null_result =
     scenario_A\<lparr>atot_server := ok_json (PDict [(''user_id'', PInt 7), (''result'', PNone)])\<rparr>"

text \<open>The text of the \<open>AttributeError\<close> for \<^verbatim>\<open>None.get\<close>.\<close>

definition none_has_no_get :: string where
  "none_has_no_get =
     [CHR 0x27] @ ''NoneType'' @ [CHR 0x27] @ '' object has no attribute '' @
     [CHR 0x27] @ ''get'' @ [CHR 0x27]"

text \<open>A database with two users; one column of user 2 is null.\<close>

definition two_users :: database where
  "two_users = [1 \<mapsto> empty_user, 2 \<mapsto> empty_user\<lparr>input_wav_list := None\<rparr>]"

subsection \<open>Shapes of bodies and of answers\<close>

text \<open>The body has the path \<open>result.details\<close>.\<close>

definition has_details :: "pyval \<Rightarrow> bool" where
  "has_details data =
     (case data of
        PDict kvs \<Rightarrow>
          (case map_of kvs ''result'' of
             Some (PDict rs) \<Rightarrow> map_of rs ''details'' \<noteq> None
           | _ \<Rightarrow> False)
      | _ \<Rightarrow> False)"

text \<open>What \<^verbatim>\<open>GET /users\<close> makes of one row: the key, and \<^verbatim>\<open>or []\<close> on each column.\<close>

definition normalized :: "int \<Rightarrow> UserDB \<Rightarrow> UserData" where
  "normalized k user =
     \<lparr>uid = k,
      ud_input_wav_list = Some (or_empty (input_wav_list user)),
      ud_atot_text_list = Some (or_empty (atot_text_list user)),
      ud_ttot_text_list = Some (or_empty (ttot_text_list user)),
      ud_output_wav_list = Some (or_empty (output_wav_list user))\<rparr>"

text \<open>
  The same answers of the text services, but reporting other user ids: \<open>user_id\<close> of
  a body that is an object is set to the given value.
\<close>

fun set_user_id :: "pyval \<Rightarrow> pyval \<Rightarrow> pyval" where
  "set_user_id v (PDict kvs) = PDict ((''user_id'', v) # kvs)"
| "set_user_id v d = d"

definition reply_with_user_id :: "pyval \<Rightarrow> reply \<Rightarrow> reply" where
  "reply_with_user_id v rp =
     (case rp of
        Raises e \<Rightarrow> Raises e
      | Responds r \<Rightarrow>
          Responds (r\<lparr>json := (case json r of Inl m \<Rightarrow> Inl m
                                | Inr d \<Rightarrow> Inr (set_user_id v d))\<rparr>))"

definition report_user_ids :: "pyval \<Rightarrow> pyval \<Rightarrow> env \<Rightarrow> env" where
  "report_user_ids a b env =
     env\<lparr>atot_server := reply_with_user_id a (atot_server env),
         ttot_server := reply_with_user_id b (ttot_server env)\<rparr>"

section \<open>Properties of the stages\<close>

lemma tts_block_shared [simp]: "shared (snd (tts_block em h env t w)) = shared w"
  by (simp add: tts_block_def Let_def split: sum.splits option.splits)

lemma tts_block_db [simp]: "db (snd (tts_block em h env t w)) = db w"
  by (simp add: tts_block_def Let_def split: sum.splits option.splits)

lemma tts_block_log:
  "log (snd (tts_block em h env t w)) =
     log w @ [HttpPost tts_url (PDict [(''request_text'', t)])] @
     (if tts_success (fst (tts_block em h env t w)) then [FileWrite ''received_audio.wav''] else [])"
  by (simp add: tts_block_def Let_def split: sum.splits option.splits)

lemma tts_block_failed:
  "tts_failed env t \<Longrightarrow>
     \<exists>m. fst (tts_block em h env t w) =
       \<lparr>output_filename = None, tts_success = False, tts_error = Some m\<rparr>"
  by (auto simp add: tts_block_def tts_failed_def tts_request_def raise_for_status_def Let_def
      split: sum.splits option.splits reply.splits if_splits)

lemma tts_block_ok:
  "\<not> tts_failed env t \<Longrightarrow> open_error env = None \<Longrightarrow>
     fst (tts_block em h env t w) =
       \<lparr>output_filename = Some ''received_audio.wav'', tts_success = True, tts_error = None\<rparr>"
  by (auto simp add: tts_block_def tts_failed_def tts_request_def raise_for_status_def Let_def
      split: sum.splits option.splits reply.splits if_splits)

text \<open>
  When opening the output file raises, the file name is already assigned: it is kept,
  and saved later, although \<open>tts_success\<close> stays false.
\<close>

lemma tts_block_open_raises:
  "\<not> tts_failed env t \<Longrightarrow> open_error env = Some m \<Longrightarrow>
     fst (tts_block em h env t w) =
       \<lparr>output_filename = Some ''received_audio.wav'', tts_success = False,
        tts_error = Some (h (OSError m))\<rparr>"
  by (auto simp add: tts_block_def tts_failed_def tts_request_def raise_for_status_def Let_def
      split: sum.splits option.splits reply.splits if_splits)

lemma append_history_cols:
  "input_wav_list (append_history s f u) =
     Some (or_empty (input_wav_list u) @ [if py_truthy (input_wav s) then input_wav s else PNone])"
  "atot_text_list (append_history s f u) =
     Some (or_empty (atot_text_list u) @ [py_or (atot_text s) (PStr [])])"
  "ttot_text_list (append_history s f u) =
     Some (or_empty (ttot_text_list u) @ [py_or (ttot_text s) (PStr [])])"
  "output_wav_list (append_history s f u) =
     Some (or_empty (output_wav_list u) @
        [case f of None \<Rightarrow> PNone | Some n \<Rightarrow> if n \<noteq> [] then PStr n else PNone])"
  by (simp_all add: append_history_def Let_def split: option.splits)

lemma pipeline_step3_persist:
  assumes "ttot_text (shared w) \<noteq> PNone" and "db w USER_ID = Some u"
  shows "pipeline_step3 env result w =
    (let tb = tts_block msg_tts_empty pipeline_tts_error env (ttot_text (shared w)) w;
         v = fst tb
     in (result\<lparr>step3_tts := Some (TtsDone (tts_success v) (output_filename v) (tts_error v)),
                success := True, result_user_id := Some USER_ID,
                final_data := Some (input_wav (shared w), atot_text (shared w),
                                    ttot_text (shared w), output_filename v)\<rparr>,
         (snd tb)\<lparr>db := (db w)(USER_ID \<mapsto> append_history (shared w) (output_filename v) u),
                   log := log (snd tb) @ [DbCommit]\<rparr>))"
  using assms by (simp add: pipeline_step3_def Let_def case_prod_beta)

lemma pipeline_step3_skip:
  assumes "ttot_text (shared w) = PNone \<or> db w USER_ID = None"
  shows "snd (pipeline_step3 env result w) = w"
    and "\<not> success result \<Longrightarrow> \<not> success (fst (pipeline_step3 env result w))"
  using assms by (auto simp add: pipeline_step3_def Let_def split: option.splits)

lemma pipeline_step2_fail:
  assumes "ttot_stage env (shared w) = (Inl e, s)"
  shows "pipeline_step2 env result w =
    (result\<lparr>errors := errors result @ [msg_ttot_failed @ str_exn e],
            step2_ttot := Some (TtotFailed (msg_ttot_failed @ str_exn e))\<rparr>,
     w\<lparr>log := log w @ [HttpGet ttot_url], shared := s\<rparr>)"
  using assms by (simp add: pipeline_step2_def Let_def)

lemma pipeline_step2_ok:
  assumes "ttot_stage env (shared w) = (Inr t, s)"
  shows "pipeline_step2 env result w =
    pipeline_step3 env (result\<lparr>step2_ttot := Some t\<rparr>)
      (w\<lparr>log := log w @ [HttpGet ttot_url], shared := s\<rparr>)"
  using assms by (simp add: pipeline_step2_def Let_def)

lemma run_full_pipeline_fail:
  assumes "atot_stage env (shared w) = (Inl e, s)"
  shows "run_full_pipeline env w =
    (result_init\<lparr>errors := [msg_atot_failed @ str_exn e],
            step1_atot := Some (AtotFailed (msg_atot_failed @ str_exn e))\<rparr>,
     w\<lparr>log := log w @ [HttpGet atot_url], shared := s\<rparr>)"
  using assms by (simp add: run_full_pipeline_def Let_def result_init_def)

lemma run_full_pipeline_ok:
  assumes "atot_stage env (shared w) = (Inr a, s)"
  shows "run_full_pipeline env w =
    pipeline_step2 env (result_init\<lparr>step1_atot := Some a\<rparr>)
      (w\<lparr>log := log w @ [HttpGet atot_url], shared := s\<rparr>)"
  using assms by (simp add: run_full_pipeline_def Let_def)

lemma atot_stage_fail_shared: "atot_stage env s = (Inl e, s') \<Longrightarrow> s' = s"
  by (cases "fetch_json (atot_server env)")
     (auto simp add: atot_stage_def atot_store_def details_get_def Let_def
        split: sum.splits elim!: py_get.elims)

lemma ttot_stage_fail_shared: "ttot_stage env s = (Inl e, s') \<Longrightarrow> s' = s"
  by (cases "fetch_json (ttot_server env)")
     (auto simp add: ttot_stage_def ttot_store_def Let_def
        split: sum.splits elim!: py_get.elims)

lemma tts_block_fst_indep:
  "fst (tts_block em h env t w) = fst (tts_block em h env t w0)"
  by (simp add: tts_block_def Let_def split: sum.splits option.splits)

lemma new_events_append [simp]:
  "log w' = log w @ es \<Longrightarrow> new_events w w' = es"
  by (simp add: new_events_def)

lemma run_full_pipeline_persist:
  assumes a: "atot_stage env (shared w) = (Inr a, s1)"
      and t: "ttot_stage env s1 = (Inr t, s2)"
      and n: "ttot_text s2 \<noteq> PNone"
      and u: "db w USER_ID = Some u"
  defines "v \<equiv> fst (tts_block msg_tts_empty pipeline_tts_error env (ttot_text s2) w)"
  shows "db (snd (run_full_pipeline env w)) =
           (db w)(USER_ID \<mapsto> append_history s2 (output_filename v) u)"
    and "shared (snd (run_full_pipeline env w)) = s2"
    and "log (snd (run_full_pipeline env w)) =
           log w @ [HttpGet atot_url, HttpGet ttot_url,
                    HttpPost tts_url (PDict [(''request_text'', ttot_text s2)])] @
           (if tts_success v then [FileWrite ''received_audio.wav''] else []) @ [DbCommit]"
    and "fst (run_full_pipeline env w) =
           \<lparr>step1_atot = Some a, step2_ttot = Some t,
            step3_tts = Some (TtsDone (tts_success v) (output_filename v) (tts_error v)),
            success = True, errors = [], result_user_id = Some USER_ID,
            final_data = Some (input_wav s2, atot_text s2, ttot_text s2, output_filename v)\<rparr>"
proof -
  let ?w2 = "w\<lparr>log := log w @ [HttpGet atot_url], shared := s1\<rparr>"
  let ?w3 = "?w2\<lparr>log := log ?w2 @ [HttpGet ttot_url], shared := s2\<rparr>"
  have v: "fst (tts_block msg_tts_empty pipeline_tts_error env (ttot_text s2) ?w3) = v"
    unfolding v_def by (rule tts_block_fst_indep)
  have run: "run_full_pipeline env w =
      pipeline_step3 env (result_init\<lparr>step1_atot := Some a, step2_ttot := Some t\<rparr>) ?w3"
    using a t by (simp add: run_full_pipeline_ok pipeline_step2_ok)
  have s3: "ttot_text (shared ?w3) \<noteq> PNone" "db ?w3 USER_ID = Some u"
    using n u by simp_all
  note st = pipeline_step3_persist [OF s3, of env]
  show "db (snd (run_full_pipeline env w)) =
           (db w)(USER_ID \<mapsto> append_history s2 (output_filename v) u)"
    unfolding run st Let_def using v by simp
  show "shared (snd (run_full_pipeline env w)) = s2"
    unfolding run st Let_def by simp
  show "log (snd (run_full_pipeline env w)) =
           log w @ [HttpGet atot_url, HttpGet ttot_url,
                    HttpPost tts_url (PDict [(''request_text'', ttot_text s2)])] @
           (if tts_success v then [FileWrite ''received_audio.wav''] else []) @ [DbCommit]"
    unfolding run st Let_def using v by (simp add: tts_block_log)
  show "fst (run_full_pipeline env w) =
           \<lparr>step1_atot = Some a, step2_ttot = Some t,
            step3_tts = Some (TtsDone (tts_success v) (output_filename v) (tts_error v)),
            success = True, errors = [], result_user_id = Some USER_ID,
            final_data = Some (input_wav s2, atot_text s2, ttot_text s2, output_filename v)\<rparr>"
    unfolding run st Let_def using v by (simp add: result_init_def)
qed

lemma run_full_pipeline_skip:
  assumes a: "atot_stage env (shared w) = (Inr a, s1)"
      and t: "ttot_stage env s1 = (Inr t, s2)"
      and n: "ttot_text s2 = PNone \<or> db w USER_ID = None"
  shows "snd (run_full_pipeline env w) =
           w\<lparr>log := log w @ [HttpGet atot_url, HttpGet ttot_url], shared := s2\<rparr>"
    and "\<not> success (fst (run_full_pipeline env w))"
proof -
  let ?w2 = "w\<lparr>log := log w @ [HttpGet atot_url], shared := s1\<rparr>"
  let ?w3 = "?w2\<lparr>log := log ?w2 @ [HttpGet ttot_url], shared := s2\<rparr>"
  have run: "run_full_pipeline env w =
      pipeline_step3 env (result_init\<lparr>step1_atot := Some a, step2_ttot := Some t\<rparr>) ?w3"
    using a t by (simp add: run_full_pipeline_ok pipeline_step2_ok)
  have s3: "ttot_text (shared ?w3) = PNone \<or> db ?w3 USER_ID = None"
    using n by simp
  show "snd (run_full_pipeline env w) =
           w\<lparr>log := log w @ [HttpGet atot_url, HttpGet ttot_url], shared := s2\<rparr>"
    unfolding run pipeline_step3_skip(1) [OF s3] by simp
  show "\<not> success (fst (run_full_pipeline env w))"
    unfolding run by (rule pipeline_step3_skip(2) [OF s3]) (simp add: result_init_def)
qed

lemma run_full_pipeline_commit:
  assumes "DbCommit \<in> set (new_events w (snd (run_full_pipeline env w)))"
  obtains a s1 t s2 u where
    "atot_stage env (shared w) = (Inr a, s1)" "ttot_stage env s1 = (Inr t, s2)"
    "ttot_text s2 \<noteq> PNone" "db w USER_ID = Some u"
proof -
  obtain r1 s1 where a: "atot_stage env (shared w) = (r1, s1)" by (cases "atot_stage env (shared w)")
  show thesis
  proof (cases r1)
    case (Inl e)
    with a assms show thesis by (simp add: run_full_pipeline_fail)
  next
    case (Inr st1)
    note a1 = a [unfolded Inr]
    obtain r2 s2 where t: "ttot_stage env s1 = (r2, s2)" by (cases "ttot_stage env s1")
    show thesis
    proof (cases r2)
      case (Inl e)
      with a1 t assms show thesis
        by (simp add: run_full_pipeline_ok pipeline_step2_fail)
    next
      case (Inr st2)
      note t1 = t [unfolded Inr]
      show thesis
      proof (cases "ttot_text s2 = PNone \<or> db w USER_ID = None")
        case True
        from assms show thesis
          unfolding run_full_pipeline_skip(1) [OF a1 t1 True] by simp
      next
        case False
        then obtain u where "ttot_text s2 \<noteq> PNone" "db w USER_ID = Some u" by auto
        with a1 t1 show thesis by (rule that)
      qed
    qed
  qed
qed

lemma scenario_A_atot:
  "atot_stage scenario_A s = (Inr (AtotOk (PInt 7) (PStr ''a.wav'') (PStr ''hello'')),
      s\<lparr>atot_text := PStr ''hello'', input_wav := PStr ''a.wav''\<rparr>)"
  by (simp add: atot_stage_def scenario_A_def ok_json_def fetch_json_def raise_for_status_def
      is_success_def atot_store_def details_get_def Let_def)

lemma scenario_A_ttot:
  "ttot_stage scenario_A s = (Inr (TtotOk (PInt 7) (PStr ''hi there'')),
      s\<lparr>ttot_text := PStr ''hi there''\<rparr>)"
  by (simp add: ttot_stage_def scenario_A_def ok_json_def fetch_json_def raise_for_status_def
      is_success_def ttot_store_def Let_def)

lemma scenario_A_tts:
  "fst (tts_block em h scenario_A t w) =
     \<lparr>output_filename = Some ''received_audio.wav'', tts_success = True, tts_error = None\<rparr>"
  by (simp add: tts_block_def tts_request_def scenario_A_def ok_bytes_def raise_for_status_def
      is_success_def Let_def)

lemma process_audio_persist:
  fixes env :: env
  assumes n: "ttot_text (shared w) \<noteq> PNone"
      and u: "db w USER_ID = Some u"
  defines "v \<equiv> fst (tts_block msg_tts_empty_dot process_audio_tts_error env (ttot_text (shared w)) w)"
  shows "db (snd (process_audio env w)) =
           (db w)(USER_ID \<mapsto> append_history (shared w) (output_filename v) u)"
    and "shared (snd (process_audio env w)) = shared w"
    and "log (snd (process_audio env w)) =
           log w @ [HttpPost tts_url (PDict [(''request_text'', ttot_text (shared w))])] @
           (if tts_success v then [FileWrite ''received_audio.wav''] else []) @ [DbCommit]"
  using n u unfolding v_def
  by (simp_all add: process_audio_def Let_def case_prod_beta tts_block_log)

lemma process_audio_skip:
  assumes "ttot_text (shared w) = PNone \<or> db w USER_ID = None"
  shows "snd (process_audio env w) = w" and "isl (fst (process_audio env w))"
  using assms by (auto simp add: process_audio_def split: option.splits)

lemma process_audio_commit:
  assumes "DbCommit \<in> set (new_events w (snd (process_audio env w)))"
  obtains u where "ttot_text (shared w) \<noteq> PNone" "db w USER_ID = Some u"
proof (cases "ttot_text (shared w) = PNone \<or> db w USER_ID = None")
  case True
  from assms show thesis
    unfolding process_audio_skip(1) [OF True] by (simp add: new_events_def)
next
  case False
  then show thesis using that by auto
qed

lemma append_history_lengths:
  assumes "equal_lengths u"
  shows "equal_lengths (append_history s f u)"
    and "length (or_empty (input_wav_list (append_history s f u))) =
           Suc (length (or_empty (input_wav_list u)))"
    and "length (or_empty (atot_text_list (append_history s f u))) =
           Suc (length (or_empty (atot_text_list u)))"
    and "length (or_empty (ttot_text_list (append_history s f u))) =
           Suc (length (or_empty (ttot_text_list u)))"
    and "length (or_empty (output_wav_list (append_history s f u))) =
           Suc (length (or_empty (output_wav_list u)))"
  using assms by (simp_all add: equal_lengths_def append_history_cols)

lemma fetch_json_failed: "reply_failed rp \<Longrightarrow> \<exists>e. fetch_json rp = Inl e"
  by (auto simp add: reply_failed_def fetch_json_def raise_for_status_def split: reply.splits)

lemma atot_stage_failed:
  assumes "reply_failed (atot_server env)"
  shows "\<exists>e. atot_stage env s = (Inl e, s)"
  using fetch_json_failed [OF assms] by (auto simp add: atot_stage_def)

lemma ttot_stage_failed:
  assumes "reply_failed (ttot_server env)"
  shows "\<exists>e. ttot_stage env s = (Inl e, s)"
  using fetch_json_failed [OF assms] by (auto simp add: ttot_stage_def)

lemma scenario_A_commit:
  "DbCommit \<in> set (new_events world_ready (snd (run_full_pipeline scenario_A world_ready)))"
proof -
  have n: "ttot_text (shared world_ready\<lparr>atot_text := PStr ''hello'', input_wav := PStr ''a.wav'',
             ttot_text := PStr ''hi there''\<rparr>) \<noteq> PNone" by simp
  have u: "db world_ready USER_ID = Some empty_user" by (simp add: world_ready_def)
  show ?thesis
    unfolding new_events_def run_full_pipeline_persist(3) [OF scenario_A_atot scenario_A_ttot n u]
    by simp
qed

lemma append_history_eq:
  "append_history s f u =
     \<lparr>input_wav_list =
        Some (or_empty (input_wav_list u) @ [if py_truthy (input_wav s) then input_wav s else PNone]),
      atot_text_list = Some (or_empty (atot_text_list u) @ [py_or (atot_text s) (PStr [])]),
      ttot_text_list = Some (or_empty (ttot_text_list u) @ [py_or (ttot_text s) (PStr [])]),
      output_wav_list =
        Some (or_empty (output_wav_list u) @
          [case f of None \<Rightarrow> PNone | Some n \<Rightarrow> if n \<noteq> [] then PStr n else PNone])\<rparr>"
  by (simp add: append_history_def Let_def split: option.splits)

lemma py_or_empty: "py_or x (PStr []) \<noteq> PStr [] \<longleftrightarrow> py_truthy x"
  by (cases x) (auto simp add: py_or_def)

lemma scenario_C_atot:
  "atot_stage scenario_C s = (Inr (AtotOk (PInt 7) (PStr ''a.wav'') (PStr ''hello'')),
      s\<lparr>atot_text := PStr ''hello'', input_wav := PStr ''a.wav''\<rparr>)"
  using scenario_A_atot [of s] by (simp add: scenario_C_def atot_stage_def)

lemma scenario_C_ttot:
  "ttot_stage scenario_C s = (Inr (TtotOk (PInt 7) (PStr ''hi there'')),
      s\<lparr>ttot_text := PStr ''hi there''\<rparr>)"
  using scenario_A_ttot [of s] by (simp add: scenario_C_def ttot_stage_def)

lemma scenario_C_failed: "tts_failed scenario_C t"
  by (simp add: tts_failed_def scenario_C_def ok_bytes_def)

lemma scenario_C_no_result_atot:
  "atot_stage scenario_C_no_result s = (Inr (AtotOk (PInt 7) PNone PNone),
      s\<lparr>atot_text := PNone, input_wav := PNone\<rparr>)"
  by (simp add: atot_stage_def scenario_C_no_result_def ok_json_def fetch_json_def
      raise_for_status_def is_success_def atot_store_def details_get_def Let_def)

lemma scenario_C_no_result_ttot:
  "ttot_stage scenario_C_no_result s = (Inr (TtotOk (PInt 7) (PStr ''hi there'')),
      s\<lparr>ttot_text := PStr ''hi there''\<rparr>)"
  using scenario_C_ttot [of s] by (simp add: scenario_C_no_result_def ttot_stage_def)

lemma scenario_C_no_result_tts:
  "fst (tts_block msg_tts_empty pipeline_tts_error scenario_C_no_result t w) =
     \<lparr>output_filename = None, tts_success = False, tts_error = Some msg_tts_empty\<rparr>"
  by (simp add: tts_block_def tts_request_def scenario_C_no_result_def scenario_C_def
      ok_bytes_def raise_for_status_def is_success_def Let_def)

lemma scenario_no_response_atot:
  "atot_stage scenario_no_response s = (Inr (AtotOk (PInt 7) (PStr ''a.wav'') (PStr ''hello'')),
      s\<lparr>atot_text := PStr ''hello'', input_wav := PStr ''a.wav''\<rparr>)"
  using scenario_A_atot [of s] by (simp add: scenario_no_response_def atot_stage_def)

lemma scenario_no_response_ttot:
  "ttot_stage scenario_no_response s = (Inr (TtotOk (PInt 7) PNone), s\<lparr>ttot_text := PNone\<rparr>)"
  by (simp add: ttot_stage_def scenario_no_response_def ok_json_def fetch_json_def
      raise_for_status_def is_success_def ttot_store_def Let_def)

lemma scenario_empty_url_atot:
  "atot_stage scenario_empty_url s = (Inr (AtotOk (PInt 7) (PStr []) (PStr ''hello'')),
      s\<lparr>atot_text := PStr ''hello'', input_wav := PStr []\<rparr>)"
  by (simp add: atot_stage_def scenario_empty_url_def ok_json_def fetch_json_def
      raise_for_status_def is_success_def atot_store_def details_get_def Let_def)

lemma scenario_empty_url_ttot:
  "ttot_stage scenario_empty_url s = (Inr (TtotOk (PInt 7) (PStr ''hi there'')),
      s\<lparr>ttot_text := PStr ''hi there''\<rparr>)"
  using scenario_A_ttot [of s] by (simp add: scenario_empty_url_def ttot_stage_def)

lemma scenario_empty_url_tts:
  "fst (tts_block em h scenario_empty_url t w) =
     \<lparr>output_filename = Some ''received_audio.wav'', tts_success = True, tts_error = None\<rparr>"
  by (simp add: tts_block_def tts_request_def scenario_empty_url_def scenario_A_def ok_bytes_def
      raise_for_status_def is_success_def Let_def)

lemma pipeline_step3_step1 [simp]:
  "step1_atot (fst (pipeline_step3 env result w)) = step1_atot result"
  by (simp add: pipeline_step3_def Let_def case_prod_beta split: option.splits)

lemma pipeline_step2_step1 [simp]:
  "step1_atot (fst (pipeline_step2 env result w)) = step1_atot result"
  by (simp add: pipeline_step2_def Let_def case_prod_beta split: sum.splits)

lemma pipeline_step3_log:
  "\<exists>es. log (snd (pipeline_step3 env result w)) = log w @ es"
  by (simp add: pipeline_step3_def Let_def case_prod_beta tts_block_log split: option.splits)

lemma pipeline_step2_log:
  "\<exists>es. log (snd (pipeline_step2 env result w)) = log w @ [HttpGet ttot_url] @ es"
proof -
  obtain r s where t: "ttot_stage env (shared w) = (r, s)" by (cases "ttot_stage env (shared w)")
  show ?thesis
  proof (cases r)
    case (Inl e)
    with t show ?thesis by (simp add: pipeline_step2_fail)
  next
    case (Inr st)
    with t pipeline_step3_log [of env "result\<lparr>step2_ttot := Some st\<rparr>"
        "w\<lparr>log := log w @ [HttpGet ttot_url], shared := s\<rparr>"]
    show ?thesis by (auto simp add: pipeline_step2_ok)
  qed
qed

lemma scenario_null_result_atot:
  "atot_stage scenario_null_result s = (Inl (AttributeError none_has_no_get), s)"
  by (simp add: atot_stage_def scenario_null_result_def ok_json_def fetch_json_def
      raise_for_status_def is_success_def atot_store_def details_get_def none_has_no_get_def)

lemma fetch_json_with_user_id:
  "fetch_json (reply_with_user_id v rp) =
     (case fetch_json rp of Inl e \<Rightarrow> Inl e | Inr d \<Rightarrow> Inr (set_user_id v d))"
  by (cases rp)
     (simp_all add: fetch_json_def reply_with_user_id_def raise_for_status_def is_success_def
        split: sum.splits)

lemma details_get_set_user_id: "details_get (set_user_id v d) k = details_get d k"
  by (cases d) (simp_all add: details_get_def)

lemma atot_store_set_user_id:
  "atot_store (set_user_id v d) s =
     (case atot_store d s of
        (Inl e, s') \<Rightarrow> (Inl e, s')
      | (Inr st, s') \<Rightarrow>
          (Inr (case st of AtotOk x i t \<Rightarrow> AtotOk v i t | AtotFailed m \<Rightarrow> AtotFailed m), s'))"
  by (cases d) (simp_all add: atot_store_def details_get_def Let_def split: sum.splits)

lemma ttot_store_set_user_id:
  "ttot_store (set_user_id v d) s =
     (case ttot_store d s of
        (Inl e, s') \<Rightarrow> (Inl e, s')
      | (Inr st, s') \<Rightarrow>
          (Inr (case st of TtotOk x t \<Rightarrow> TtotOk v t | TtotFailed m \<Rightarrow> TtotFailed m), s'))"
  by (cases d) (simp_all add: ttot_store_def Let_def split: sum.splits)

lemma atot_stage_report:
  "atot_stage (report_user_ids a b env) s =
     (case atot_stage env s of
        (Inl e, s') \<Rightarrow> (Inl e, s')
      | (Inr st, s') \<Rightarrow>
          (Inr (case st of AtotOk x i t \<Rightarrow> AtotOk a i t | AtotFailed m \<Rightarrow> AtotFailed m), s'))"
  by (simp add: atot_stage_def report_user_ids_def fetch_json_with_user_id
      atot_store_set_user_id split: sum.splits)

lemma ttot_stage_report:
  "ttot_stage (report_user_ids a b env) s =
     (case ttot_stage env s of
        (Inl e, s') \<Rightarrow> (Inl e, s')
      | (Inr st, s') \<Rightarrow>
          (Inr (case st of TtotOk x t \<Rightarrow> TtotOk b t | TtotFailed m \<Rightarrow> TtotFailed m), s'))"
  by (simp add: ttot_stage_def report_user_ids_def fetch_json_with_user_id
      ttot_store_set_user_id split: sum.splits)

lemma tts_block_report:
  "tts_block em h (report_user_ids a b env) t w = tts_block em h env t w"
proof -
  have 1: "tts_request (report_user_ids a b env) t = tts_request env t"
    by (simp add: tts_request_def report_user_ids_def)
  have 2: "open_error (report_user_ids a b env) = open_error env"
    by (simp add: report_user_ids_def)
  show ?thesis unfolding tts_block_def 1 2 ..
qed

lemma pipeline_step3_step2 [simp]:
  "step2_ttot (fst (pipeline_step3 env result w)) = step2_ttot result"
  by (simp add: pipeline_step3_def Let_def case_prod_beta split: option.splits)

lemma pipeline_step3_world:
  "snd (pipeline_step3 (report_user_ids a b env) result' w) = snd (pipeline_step3 env result w)"
  by (simp add: pipeline_step3_def tts_block_report Let_def case_prod_beta split: option.splits)

lemma pipeline_step2_world:
  "snd (pipeline_step2 (report_user_ids a b env) result' w) = snd (pipeline_step2 env result w)"
proof -
  obtain r s where t: "ttot_stage env (shared w) = (r, s)" by (cases "ttot_stage env (shared w)")
  show ?thesis
  proof (cases r)
    case (Inl e)
    with t have "ttot_stage (report_user_ids a b env) (shared w) = (Inl e, s)"
      by (simp add: ttot_stage_report)
    with t Inl show ?thesis by (simp add: pipeline_step2_fail)
  next
    case (Inr st)
    with t have "\<exists>st'. ttot_stage (report_user_ids a b env) (shared w) = (Inr st', s)"
      by (simp add: ttot_stage_report)
    then obtain st' where "ttot_stage (report_user_ids a b env) (shared w) = (Inr st', s)" ..
    with t Inr show ?thesis by (simp add: pipeline_step2_ok pipeline_step3_world)
  qed
qed

lemma pipeline_step2_echo:
  "step2_ttot (fst (pipeline_step2 (report_user_ids a b env) result w)) = Some (TtotOk x t)
     \<Longrightarrow> x = b"
proof -
  assume h: "step2_ttot (fst (pipeline_step2 (report_user_ids a b env) result w)) = Some (TtotOk x t)"
  obtain r s where t: "ttot_stage env (shared w) = (r, s)" by (cases "ttot_stage env (shared w)")
  show ?thesis
  proof (cases r)
    case (Inl e)
    with t have "ttot_stage (report_user_ids a b env) (shared w) = (Inl e, s)"
      by (simp add: ttot_stage_report)
    with h show ?thesis by (simp add: pipeline_step2_fail)
  next
    case (Inr st)
    with t have "ttot_stage (report_user_ids a b env) (shared w) =
        (Inr (case st of TtotOk x t \<Rightarrow> TtotOk b t | TtotFailed m \<Rightarrow> TtotFailed m), s)"
      by (simp add: ttot_stage_report)
    with h show ?thesis by (cases st) (simp_all add: pipeline_step2_ok)
  qed
qed

lemma run_full_pipeline_world:
  "snd (run_full_pipeline (report_user_ids a b env) w) = snd (run_full_pipeline env w)"
proof -
  obtain r s where t: "atot_stage env (shared w) = (r, s)" by (cases "atot_stage env (shared w)")
  show ?thesis
  proof (cases r)
    case (Inl e)
    with t have "atot_stage (report_user_ids a b env) (shared w) = (Inl e, s)"
      by (simp add: atot_stage_report)
    with t Inl show ?thesis by (simp add: run_full_pipeline_fail)
  next
    case (Inr st)
    with t have "\<exists>st'. atot_stage (report_user_ids a b env) (shared w) = (Inr st', s)"
      by (simp add: atot_stage_report)
    then obtain st' where "atot_stage (report_user_ids a b env) (shared w) = (Inr st', s)" ..
    with t Inr show ?thesis by (simp add: run_full_pipeline_ok pipeline_step2_world)
  qed
qed

lemma run_full_pipeline_echo:
  assumes "step1_atot (fst (run_full_pipeline (report_user_ids a b env) w)) = Some (AtotOk x i t)"
  shows "x = a"
proof -
  obtain r s where t: "atot_stage env (shared w) = (r, s)" by (cases "atot_stage env (shared w)")
  show ?thesis
  proof (cases r)
    case (Inl e)
    with t have "atot_stage (report_user_ids a b env) (shared w) = (Inl e, s)"
      by (simp add: atot_stage_report)
    with assms show ?thesis by (simp add: run_full_pipeline_fail result_init_def)
  next
    case (Inr st)
    with t have "atot_stage (report_user_ids a b env) (shared w) =
        (Inr (case st of AtotOk x i t \<Rightarrow> AtotOk a i t | AtotFailed m \<Rightarrow> AtotFailed m), s)"
      by (simp add: atot_stage_report)
    with assms show ?thesis by (cases st) (simp_all add: run_full_pipeline_ok)
  qed
qed

lemma run_full_pipeline_echo2:
  assumes "step2_ttot (fst (run_full_pipeline (report_user_ids a b env) w)) = Some (TtotOk x t)"
  shows "x = b"
proof -
  obtain r s where t: "atot_stage (report_user_ids a b env) (shared w) = (r, s)"
    by (cases "atot_stage (report_user_ids a b env) (shared w)")
  show ?thesis
  proof (cases r)
    case (Inl e)
    with t assms show ?thesis by (simp add: run_full_pipeline_fail result_init_def)
  next
    case (Inr st)
    with t assms show ?thesis
      by (auto simp add: run_full_pipeline_ok dest: pipeline_step2_echo)
  qed
qed

lemma pipeline_step3_db:
  "k \<noteq> USER_ID \<Longrightarrow> db (snd (pipeline_step3 env result w)) k = db w k"
  by (simp add: pipeline_step3_def Let_def case_prod_beta split: option.splits)

lemma pipeline_step2_db:
  "k \<noteq> USER_ID \<Longrightarrow> db (snd (pipeline_step2 env result w)) k = db w k"
  by (simp add: pipeline_step2_def Let_def case_prod_beta pipeline_step3_db split: sum.splits)

lemma run_full_pipeline_db:
  "k \<noteq> USER_ID \<Longrightarrow> db (snd (run_full_pipeline env w)) k = db w k"
  by (simp add: run_full_pipeline_def Let_def case_prod_beta pipeline_step2_db split: sum.splits)

lemma process_audio_db:
  "k \<noteq> USER_ID \<Longrightarrow> db (snd (process_audio env w)) k = db w k"
  by (simp add: process_audio_def Let_def case_prod_beta split: option.splits)

lemma get_atot_db: "db (snd (get_atot env w)) = db w"
  by (simp add: get_atot_def Let_def case_prod_beta)

lemma get_ttot_db: "db (snd (get_ttot env w)) = db w"
  by (simp add: get_ttot_def Let_def case_prod_beta)

lemma append_history_user_id:
  "append_history (s\<lparr>user_id := v\<rparr>) f u = append_history s f u"
  by (simp add: append_history_def)

lemma process_audio_user_id:
  "db (snd (process_audio env (w\<lparr>shared := (shared w)\<lparr>user_id := v\<rparr>\<rparr>))) =
   db (snd (process_audio env w))"
proof -
  have "fst (tts_block em h env t (w\<lparr>shared := (shared w)\<lparr>user_id := v\<rparr>\<rparr>)) =
        fst (tts_block em h env t w)" for em h t
    by (rule tts_block_fst_indep)
  then show ?thesis
    by (simp add: process_audio_def Let_def case_prod_beta append_history_user_id
        split: option.splits)
qed

lemma two_users_dom: "dom two_users = {1, 2}"
  by (auto simp add: two_users_def)

lemma fetch_map_fst:
  "set ks \<subseteq> dom d \<Longrightarrow>
     map fst (List.map_filter (\<lambda>k. map_option (Pair k) (d k)) ks) = ks"
proof (induction ks)
  case Nil
  show ?case by (simp add: List.map_filter_simps)
next
  case (Cons k ks)
  then obtain r where "d k = Some r" by auto
  with Cons show ?case by (simp add: List.map_filter_simps)
qed

lemma fetch_rows:
  "(k, r) \<in> set (List.map_filter (\<lambda>k. map_option (Pair k) (d k)) ks) \<Longrightarrow> d k = Some r"
  by (auto simp add: List.map_filter_def)

lemma query_all_keys:
  assumes "finite (dom d)"
  shows "map fst (query_all d) = sorted_list_of_set (dom d)"
  unfolding query_all_def using assms by (intro fetch_map_fst) simp

lemma query_all_rows: "(k, r) \<in> set (query_all d) \<Longrightarrow> d k = Some r"
  unfolding query_all_def by (rule fetch_rows)

lemma get_users_normalized:
  "get_users d = map (\<lambda>(k, user). normalized k user) (query_all d)"
  by (simp add: get_users_def normalized_def)

lemma get_users_uid: "map uid (get_users d) = map fst (query_all d)"
  by (simp add: get_users_normalized normalized_def case_prod_beta)

lemma get_users_rows:
  assumes "x \<in> set (get_users d)"
  shows "\<exists>r. d (uid x) = Some r \<and> x = normalized (uid x) r"
proof -
  from assms obtain k r where kr: "(k, r) \<in> set (query_all d)" and x: "x = normalized k r"
    by (auto simp add: get_users_normalized)
  from x have "uid x = k" by (simp add: normalized_def)
  with kr x query_all_rows [OF kr] show ?thesis by auto
qed

lemma get_user_out_of_range:
  "\<not> sqlite_integer k \<Longrightarrow>
     get_user k w =
       (Inl (Unhandled (OverflowError ''Python int too large to convert to SQLite INTEGER'')), w)"
  by (simp add: get_user_def query_first_def)

section \<open>Properties of the endpoints\<close>

text \<open>
  C1. A run of the full pipeline (or of \<^verbatim>\<open>/process-audio\<close>, which saves with the same
  statements) that reaches the commit, started on a history of user 10 whose four
  sequences have one length (a null column counting as empty), leaves a history whose
  four sequences again have one length, each of them longer by exactly one element.
\<close>

theorem persist_grows_all_four:
  assumes run: "w' = snd (run_full_pipeline env w) \<or> w' = snd (process_audio env w)"
      and reach: "DbCommit \<in> set (new_events w w')"
      and user: "db w USER_ID = Some u"
      and eq: "equal_lengths u"
  shows "\<exists>u'. db w' USER_ID = Some u' \<and> equal_lengths u' \<and>
           length (or_empty (input_wav_list u')) = Suc (length (or_empty (input_wav_list u))) \<and>
           length (or_empty (atot_text_list u')) = Suc (length (or_empty (atot_text_list u))) \<and>
           length (or_empty (ttot_text_list u')) = Suc (length (or_empty (ttot_text_list u))) \<and>
           length (or_empty (output_wav_list u')) = Suc (length (or_empty (output_wav_list u)))"
proof -
  have "\<exists>s f. db w' USER_ID = Some (append_history s f u)"
    using run
  proof
    assume w': "w' = snd (run_full_pipeline env w)"
    from reach [unfolded w'] obtain a s1 t s2 u0 where
      st: "atot_stage env (shared w) = (Inr a, s1)" "ttot_stage env s1 = (Inr t, s2)"
          "ttot_text s2 \<noteq> PNone" "db w USER_ID = Some u0"
      by (rule run_full_pipeline_commit)
    from st(4) user have "u0 = u" by simp
    with run_full_pipeline_persist(1) [OF st] w' show ?thesis by auto
  next
    assume w': "w' = snd (process_audio env w)"
    from reach [unfolded w'] obtain u0 where
      st: "ttot_text (shared w) \<noteq> PNone" "db w USER_ID = Some u0"
      by (rule process_audio_commit)
    from st(2) user have "u0 = u" by simp
    with process_audio_persist(1) [OF st] w' show ?thesis by auto
  qed
  then obtain s f where "db w' USER_ID = Some (append_history s f u)" by blast
  with append_history_lengths [OF eq, of s f] show ?thesis by simp
qed

theorem persist_grows_all_four_witness:
  "\<exists>u'. db (snd (run_full_pipeline scenario_A world_ready)) USER_ID = Some u' \<and>
         equal_lengths u' \<and>
         length (or_empty (input_wav_list u')) = 1 \<and>
         length (or_empty (atot_text_list u')) = 1 \<and>
         length (or_empty (ttot_text_list u')) = 1 \<and>
         length (or_empty (output_wav_list u')) = 1"
proof -
  have u: "db world_ready USER_ID = Some empty_user" by (simp add: world_ready_def)
  have eq: "equal_lengths empty_user" by (simp add: equal_lengths_def empty_user_def)
  from persist_grows_all_four [OF disjI1 [OF refl] scenario_A_commit u eq]
  show ?thesis by (simp add: empty_user_def)
qed

text \<open>
  C2. When the Recognize call fails (the client raises, or the status is not 2xx), or
  Recognize succeeds and the Generate call fails, the run ends before Synthesize: no
  request goes to the TTS service, \<open>step3_tts\<close> stays unset, \<open>success\<close> is false, the
  only entry of \<open>errors\<close> starts with the name of the failed stage, and the database is
  unchanged.
\<close>

theorem early_failure_aborts:
  assumes "reply_failed (atot_server env) \<or>
           (\<not> isl (fst (atot_stage env (shared w))) \<and> reply_failed (ttot_server env))"
  shows "\<not> success (fst (run_full_pipeline env w)) \<and>
         step3_tts (fst (run_full_pipeline env w)) = None \<and>
         db (snd (run_full_pipeline env w)) = db w \<and>
         (if reply_failed (atot_server env)
          then new_events w (snd (run_full_pipeline env w)) = [HttpGet atot_url] \<and>
               (\<exists>m. errors (fst (run_full_pipeline env w)) = [msg_atot_failed @ m])
          else new_events w (snd (run_full_pipeline env w)) = [HttpGet atot_url, HttpGet ttot_url] \<and>
               (\<exists>m. errors (fst (run_full_pipeline env w)) = [msg_ttot_failed @ m]))"
proof (cases "reply_failed (atot_server env)")
  case True
  from atot_stage_failed [OF True] obtain e where
    "atot_stage env (shared w) = (Inl e, shared w)" by blast
  from run_full_pipeline_fail [OF this] True show ?thesis
    by (simp add: result_init_def)
next
  case False
  with assms have a: "\<not> isl (fst (atot_stage env (shared w)))"
    and t: "reply_failed (ttot_server env)" by auto
  obtain r1 s1 where a0: "atot_stage env (shared w) = (r1, s1)"
    by (cases "atot_stage env (shared w)")
  with a obtain st where "r1 = Inr st" by (cases r1) simp_all
  with a0 have a1: "atot_stage env (shared w) = (Inr st, s1)" by simp
  from ttot_stage_failed [OF t] obtain e where t1: "ttot_stage env s1 = (Inl e, s1)" by blast
  have "ttot_stage env (shared (w\<lparr>log := log w @ [HttpGet atot_url], shared := s1\<rparr>)) = (Inl e, s1)"
    using t1 by simp
  from pipeline_step2_fail [OF this] run_full_pipeline_ok [OF a1] False show ?thesis
    by (simp add: result_init_def)
qed

theorem early_failure_aborts_witness:
  "\<not> success (fst (run_full_pipeline scenario_B world_ready)) \<and>
   step3_tts (fst (run_full_pipeline scenario_B world_ready)) = None \<and>
   db (snd (run_full_pipeline scenario_B world_ready)) = db world_ready \<and>
   new_events world_ready (snd (run_full_pipeline scenario_B world_ready)) = [HttpGet atot_url] \<and>
   (\<exists>m. errors (fst (run_full_pipeline scenario_B world_ready)) = [msg_atot_failed @ m])"
proof -
  have f: "reply_failed (atot_server scenario_B)"
    by (simp add: scenario_B_def reply_failed_def)
  from early_failure_aborts [OF disjI1 [OF f], of world_ready] f show ?thesis by simp
qed

text \<open>
  C3, amended. When Recognize and Generate succeed, the generated text is not null and
  the row of user 10 exists (so that Synthesize is called), and Synthesize fails (the
  client raises, the status is not 2xx, or the body has length zero), the run returns
  \<open>success\<close> true with the TTS step marked failed, and the history gains exactly one
  entry: no output reference, and the recognized and generated values with every falsy
  value (null, the empty string) replaced by the empty string. The two texts are non-empty
  only when the values the services sent are truthy.
\<close>

theorem synthesize_failure_still_persists:
  assumes a: "atot_stage env (shared w) = (Inr a, s1)"
      and t: "ttot_stage env s1 = (Inr t, s2)"
      and n: "ttot_text s2 \<noteq> PNone"
      and u: "db w USER_ID = Some u"
      and f: "tts_failed env (ttot_text s2)"
  shows "success (fst (run_full_pipeline env w)) \<and>
         (\<exists>m. step3_tts (fst (run_full_pipeline env w)) = Some (TtsDone False None (Some m))) \<and>
         db (snd (run_full_pipeline env w)) =
           (db w)(USER_ID \<mapsto>
             \<lparr>input_wav_list =
                Some (or_empty (input_wav_list u) @
                        [if py_truthy (input_wav s2) then input_wav s2 else PNone]),
              atot_text_list =
                Some (or_empty (atot_text_list u) @
                        [if py_truthy (atot_text s2) then atot_text s2 else PStr []]),
              ttot_text_list =
                Some (or_empty (ttot_text_list u) @
                        [if py_truthy (ttot_text s2) then ttot_text s2 else PStr []]),
              output_wav_list = Some (or_empty (output_wav_list u) @ [PNone])\<rparr>) \<and>
         (py_truthy (atot_text s2) \<longrightarrow> atot_text s2 \<noteq> PStr []) \<and>
         (py_truthy (ttot_text s2) \<longrightarrow> ttot_text s2 \<noteq> PStr [])"
proof -
  from tts_block_failed [OF f] obtain m where
    v: "fst (tts_block msg_tts_empty pipeline_tts_error env (ttot_text s2) w) =
          \<lparr>output_filename = None, tts_success = False, tts_error = Some m\<rparr>" by blast
  note r = run_full_pipeline_persist [OF a t n u]
  have "success (fst (run_full_pipeline env w))"
    unfolding r(4) by simp
  moreover have "\<exists>m. step3_tts (fst (run_full_pipeline env w)) = Some (TtsDone False None (Some m))"
    unfolding r(4) v by simp
  moreover have "db (snd (run_full_pipeline env w)) =
           (db w)(USER_ID \<mapsto>
             \<lparr>input_wav_list =
                Some (or_empty (input_wav_list u) @
                        [if py_truthy (input_wav s2) then input_wav s2 else PNone]),
              atot_text_list =
                Some (or_empty (atot_text_list u) @
                        [if py_truthy (atot_text s2) then atot_text s2 else PStr []]),
              ttot_text_list =
                Some (or_empty (ttot_text_list u) @
                        [if py_truthy (ttot_text s2) then ttot_text s2 else PStr []]),
              output_wav_list = Some (or_empty (output_wav_list u) @ [PNone])\<rparr>)"
    unfolding r(1) v by (simp add: append_history_eq py_or_def)
  moreover have "py_truthy x \<longrightarrow> x \<noteq> PStr []" for x by auto
  ultimately show ?thesis by blast
qed

theorem synthesize_failure_still_persists_witness:
  "success (fst (run_full_pipeline scenario_C world_ready)) \<and>
   (\<exists>m. step3_tts (fst (run_full_pipeline scenario_C world_ready)) =
           Some (TtsDone False None (Some m))) \<and>
   db (snd (run_full_pipeline scenario_C world_ready)) =
     (db world_ready)(USER_ID \<mapsto>
        \<lparr>input_wav_list = Some [PStr ''a.wav''], atot_text_list = Some [PStr ''hello''],
         ttot_text_list = Some [PStr ''hi there''], output_wav_list = Some [PNone]\<rparr>)"
proof -
  have n: "ttot_text (shared world_ready\<lparr>atot_text := PStr ''hello'', input_wav := PStr ''a.wav'',
             ttot_text := PStr ''hi there''\<rparr>) \<noteq> PNone" by simp
  have u: "db world_ready USER_ID = Some empty_user" by (simp add: world_ready_def)
  from synthesize_failure_still_persists [OF scenario_C_atot scenario_C_ttot n u scenario_C_failed]
  show ?thesis by (simp add: empty_user_def)
qed

text \<open>
  C3 as first stated promises non-empty texts in the new entry. A Recognize body
  without \<open>result\<close> counts as a success with null fields, and the entry then records the
  empty string as the recognized text.
\<close>

theorem synthesize_failure_entry_counterexample:
  "step1_atot (fst (run_full_pipeline scenario_C_no_result world_ready)) =
     Some (AtotOk (PInt 7) PNone PNone) \<and>
   step2_ttot (fst (run_full_pipeline scenario_C_no_result world_ready)) =
     Some (TtotOk (PInt 7) (PStr ''hi there'')) \<and>
   step3_tts (fst (run_full_pipeline scenario_C_no_result world_ready)) =
     Some (TtsDone False None (Some msg_tts_empty)) \<and>
   tts_failed scenario_C_no_result (PStr ''hi there'') \<and>
   db (snd (run_full_pipeline scenario_C_no_result world_ready)) USER_ID =
     Some \<lparr>input_wav_list = Some [PNone], atot_text_list = Some [PStr []],
           ttot_text_list = Some [PStr ''hi there''], output_wav_list = Some [PNone]\<rparr>"
proof -
  have n: "ttot_text (shared world_ready\<lparr>atot_text := PNone, input_wav := PNone,
             ttot_text := PStr ''hi there''\<rparr>) \<noteq> PNone" by simp
  have u: "db world_ready USER_ID = Some empty_user" by (simp add: world_ready_def)
  note r = run_full_pipeline_persist [OF scenario_C_no_result_atot scenario_C_no_result_ttot n u]
  have f: "tts_failed scenario_C_no_result (PStr ''hi there'')"
    by (simp add: tts_failed_def scenario_C_no_result_def scenario_C_def ok_bytes_def)
  show ?thesis
    unfolding r(1) r(4) using f
    by (simp add: scenario_C_no_result_tts append_history_eq empty_user_def py_or_def
        world_ready_def world_init_def SharedData_init_def)
qed

text \<open>
  C4, amended. When Recognize and Generate succeed, the generated text is not null and
  the row of user 10 exists, the run calls Synthesize and then, whatever its outcome,
  saves exactly once: one commit, as the last effect of the run, after which the row of
  user 10 is the old row with one element added to each of its four columns. When the
  generated text is null or the row of user 10 is missing, the run ends after Generate
  with \<open>success\<close> false: no request to the TTS service, no commit, the database
  unchanged.
\<close>

theorem persist_after_generate:
  assumes a: "atot_stage env (shared w) = (Inr a, s1)"
      and t: "ttot_stage env s1 = (Inr t, s2)"
  shows "(ttot_text s2 \<noteq> PNone \<and> db w USER_ID \<noteq> None \<longrightarrow>
            (\<exists>fw. new_events w (snd (run_full_pipeline env w)) =
                    [HttpGet atot_url, HttpGet ttot_url,
                     HttpPost tts_url (PDict [(''request_text'', ttot_text s2)])] @ fw @ [DbCommit] \<and>
                  (fw = [] \<or> fw = [FileWrite ''received_audio.wav''])) \<and>
            count_list (new_events w (snd (run_full_pipeline env w))) DbCommit = 1 \<and>
            (\<exists>u out.
               out = output_filename (fst (tts_block msg_tts_empty pipeline_tts_error env
                                             (ttot_text s2) w)) \<and>
               db w USER_ID = Some u \<and>
               db (snd (run_full_pipeline env w)) =
                 (db w)(USER_ID \<mapsto> append_history s2 out u) \<and>
               append_history s2 out u =
                 \<lparr>input_wav_list =
                    Some (or_empty (input_wav_list u) @
                            [if py_truthy (input_wav s2) then input_wav s2 else PNone]),
                  atot_text_list =
                    Some (or_empty (atot_text_list u) @
                            [if py_truthy (atot_text s2) then atot_text s2 else PStr []]),
                  ttot_text_list =
                    Some (or_empty (ttot_text_list u) @
                            [if py_truthy (ttot_text s2) then ttot_text s2 else PStr []]),
                  output_wav_list =
                    Some (or_empty (output_wav_list u) @
                            [case out of None \<Rightarrow> PNone
                             | Some n \<Rightarrow> if n \<noteq> [] then PStr n else PNone])\<rparr>) \<and>
            success (fst (run_full_pipeline env w))) \<and>
         (ttot_text s2 = PNone \<or> db w USER_ID = None \<longrightarrow>
            new_events w (snd (run_full_pipeline env w)) = [HttpGet atot_url, HttpGet ttot_url] \<and>
            \<not> success (fst (run_full_pipeline env w)) \<and>
            db (snd (run_full_pipeline env w)) = db w)"
proof (cases "ttot_text s2 = PNone \<or> db w USER_ID = None")
  case True
  note r = run_full_pipeline_skip [OF a t True]
  from True r(2) show ?thesis unfolding r(1) by auto
next
  case False
  then obtain u where n: "ttot_text s2 \<noteq> PNone" and u: "db w USER_ID = Some u" by auto
  note r = run_full_pipeline_persist [OF a t n u]
  let ?v = "fst (tts_block msg_tts_empty pipeline_tts_error env (ttot_text s2) w)"
  have s: "success (fst (run_full_pipeline env w))" unfolding r(4) by simp
  from u r(1) have "\<exists>u out.
               out = output_filename ?v \<and>
               db w USER_ID = Some u \<and>
               db (snd (run_full_pipeline env w)) =
                 (db w)(USER_ID \<mapsto> append_history s2 out u) \<and>
               append_history s2 out u =
                 \<lparr>input_wav_list =
                    Some (or_empty (input_wav_list u) @
                            [if py_truthy (input_wav s2) then input_wav s2 else PNone]),
                  atot_text_list =
                    Some (or_empty (atot_text_list u) @
                            [if py_truthy (atot_text s2) then atot_text s2 else PStr []]),
                  ttot_text_list =
                    Some (or_empty (ttot_text_list u) @
                            [if py_truthy (ttot_text s2) then ttot_text s2 else PStr []]),
                  output_wav_list =
                    Some (or_empty (output_wav_list u) @
                            [case out of None \<Rightarrow> PNone
                             | Some n \<Rightarrow> if n \<noteq> [] then PStr n else PNone])\<rparr>"
    by (intro exI [of _ u] exI [of _ "output_filename ?v"])
       (simp add: append_history_eq py_or_def)
  with False s show ?thesis
    unfolding new_events_append [OF r(3)] by simp
qed

theorem persist_after_generate_witness:
  "(\<exists>fw. new_events world_ready (snd (run_full_pipeline scenario_C world_ready)) =
            [HttpGet atot_url, HttpGet ttot_url,
             HttpPost tts_url (PDict [(''request_text'', PStr ''hi there'')])] @ fw @ [DbCommit] \<and>
          (fw = [] \<or> fw = [FileWrite ''received_audio.wav''])) \<and>
   count_list (new_events world_ready (snd (run_full_pipeline scenario_C world_ready))) DbCommit = 1 \<and>
   db (snd (run_full_pipeline scenario_C world_ready)) =
     (db world_ready)(USER_ID \<mapsto>
        \<lparr>input_wav_list = Some [PStr ''a.wav''], atot_text_list = Some [PStr ''hello''],
         ttot_text_list = Some [PStr ''hi there''], output_wav_list = Some [PNone]\<rparr>) \<and>
   success (fst (run_full_pipeline scenario_C world_ready))"
proof -
  have u: "db world_ready USER_ID = Some empty_user" by (simp add: world_ready_def)
  from tts_block_failed [OF scenario_C_failed]
  have o: "output_filename (fst (tts_block em h scenario_C x w0)) = None" for em h x w0
    by (metis tts_vars.select_convs(1))
  from persist_after_generate [OF scenario_C_atot scenario_C_ttot, of world_ready] u
  show ?thesis by (auto simp add: empty_user_def o)
qed

text \<open>
  C4 as first stated has every successful Generate followed by Synthesize and one
  commit. On a database without user 10 the run stops after a successful Generate; so
  does a run whose Generate body has no \<open>response\<close>.
\<close>

theorem persist_after_generate_counterexample:
  "step2_ttot (fst (run_full_pipeline scenario_A world_init)) =
     Some (TtotOk (PInt 7) (PStr ''hi there'')) \<and>
   new_events world_init (snd (run_full_pipeline scenario_A world_init)) =
     [HttpGet atot_url, HttpGet ttot_url] \<and>
   db (snd (run_full_pipeline scenario_A world_init)) = db world_init \<and>
   step2_ttot (fst (run_full_pipeline scenario_no_response world_ready)) =
     Some (TtotOk (PInt 7) PNone) \<and>
   new_events world_ready (snd (run_full_pipeline scenario_no_response world_ready)) =
     [HttpGet atot_url, HttpGet ttot_url] \<and>
   db (snd (run_full_pipeline scenario_no_response world_ready)) = db world_ready"
proof -
  have 1: "ttot_text (shared world_init\<lparr>atot_text := PStr ''hello'', input_wav := PStr ''a.wav'',
             ttot_text := PStr ''hi there''\<rparr>) = PNone \<or> db world_init USER_ID = None"
    by (simp add: world_init_def)
  have 2: "ttot_text (shared world_ready\<lparr>atot_text := PStr ''hello'', input_wav := PStr ''a.wav'',
             ttot_text := PNone\<rparr>) = PNone \<or> db world_ready USER_ID = None"
    by simp
  note r1 = run_full_pipeline_skip(1) [OF scenario_A_atot scenario_A_ttot 1]
  note r2 = run_full_pipeline_skip(1) [OF scenario_no_response_atot scenario_no_response_ttot 2]
  have s1: "step2_ttot (fst (run_full_pipeline scenario_A world_init)) =
     Some (TtotOk (PInt 7) (PStr ''hi there''))"
    by (simp add: run_full_pipeline_ok [OF scenario_A_atot] pipeline_step2_def Let_def
        scenario_A_ttot pipeline_step3_def world_init_def)
  have s2: "step2_ttot (fst (run_full_pipeline scenario_no_response world_ready)) =
     Some (TtotOk (PInt 7) PNone)"
    by (simp add: run_full_pipeline_ok [OF scenario_no_response_atot] pipeline_step2_def Let_def
        scenario_no_response_ttot pipeline_step3_def)
  show ?thesis unfolding r1 r2 using s1 s2 by simp
qed

text \<open>
  C5, amended. For a user id in the range of the key column (signed 64 bits) without a
  row, \<^verbatim>\<open>GET /users/{user_id}\<close> answers 404 "User not found" and changes nothing.
  Only \<^verbatim>\<open>GET /\<close> creates a history on first read, and only for the fixed user 10:
  it stores and returns four empty sequences, and it never creates the row of another
  user.
\<close>

theorem get_user_unknown:
  assumes "db w k = None" and "sqlite_integer k"
  shows "get_user k w = (Inl (HTTPException 404 ''User not found''), w) \<and>
         (k = USER_ID \<longrightarrow>
            read_root w =
              ((''This is the Backend Server'',
                \<lparr>uid = USER_ID, ud_input_wav_list = Some [], ud_atot_text_list = Some [],
                 ud_ttot_text_list = Some [], ud_output_wav_list = Some []\<rparr>),
               w\<lparr>db := (db w)(USER_ID \<mapsto> empty_user), log := log w @ [DbCommit]\<rparr>)) \<and>
         (k \<noteq> USER_ID \<longrightarrow> db (snd (read_root w)) k = None)"
  using assms
  by (auto simp add: get_user_def query_first_def read_root_def empty_user_def Let_def
      split: option.splits)

theorem get_user_unknown_witness:
  "get_user USER_ID world_init = (Inl (HTTPException 404 ''User not found''), world_init) \<and>
   read_root world_init =
     ((''This is the Backend Server'',
       \<lparr>uid = USER_ID, ud_input_wav_list = Some [], ud_atot_text_list = Some [],
        ud_ttot_text_list = Some [], ud_output_wav_list = Some []\<rparr>),
      world_init\<lparr>db := (db world_init)(USER_ID \<mapsto> empty_user),
                 log := log world_init @ [DbCommit]\<rparr>)"
proof -
  have n: "db world_init USER_ID = None" by (simp add: world_init_def)
  have r: "sqlite_integer USER_ID" by (simp add: sqlite_integer_def USER_ID_def)
  from get_user_unknown [OF n r] show ?thesis by simp
qed

text \<open>
  C5 as first stated has the lookup of an unknown user return an empty history. The
  lookup of user 7 on an empty database is an error and leaves the database empty.
\<close>

theorem get_user_unknown_counterexample:
  "get_user 7 world_init = (Inl (HTTPException 404 ''User not found''), world_init)"
  by (simp add: get_user_def query_first_def sqlite_integer_def world_init_def)

text \<open>
  C6, amended. For a 2xx Recognize response whose body is a JSON object in which the
  key \<open>result\<close> is absent, or is an object without the key \<open>details\<close>, the stage
  succeeds with recognized text and input reference both null, in \<^verbatim>\<open>/atot\<close> and in the
  full pipeline, which goes on to call Generate.
\<close>

theorem lenient_recognize:
  assumes r: "atot_server env = Responds r"
      and ok: "is_success r"
      and j: "json r = Inr (PDict kvs)"
      and lack: "map_of kvs ''result'' = None \<or>
                 (\<exists>rs. map_of kvs ''result'' = Some (PDict rs) \<and> map_of rs ''details'' = None)"
  defines "reported \<equiv> (case map_of kvs ''user_id'' of Some v \<Rightarrow> v | None \<Rightarrow> PNone)"
  shows "atot_stage env s =
           (Inr (AtotOk reported PNone PNone), s\<lparr>atot_text := PNone, input_wav := PNone\<rparr>) \<and>
         fst (get_atot env w) = Inr (reported, PNone, PNone) \<and>
         step1_atot (fst (run_full_pipeline env w)) = Some (AtotOk reported PNone PNone) \<and>
         take 2 (new_events w (snd (run_full_pipeline env w))) =
           [HttpGet atot_url, HttpGet ttot_url]"
proof -
  have f: "fetch_json (atot_server env) = Inr (PDict kvs)"
    using r ok j by (simp add: fetch_json_def raise_for_status_def)
  have d: "details_get (PDict kvs) k = Inr PNone" for k
    using lack by (auto simp add: details_get_def)
  have a: "atot_stage env s =
      (Inr (AtotOk reported PNone PNone), s\<lparr>atot_text := PNone, input_wav := PNone\<rparr>)" for s
    by (simp add: atot_stage_def f atot_store_def d Let_def reported_def)
  have g: "fst (get_atot env w) = Inr (reported, PNone, PNone)"
    by (simp add: get_atot_def f get_atot_store_def d Let_def reported_def)
  note run = run_full_pipeline_ok [OF a]
  have s1: "step1_atot (fst (run_full_pipeline env w)) = Some (AtotOk reported PNone PNone)"
    unfolding run by simp
  from pipeline_step2_log [of env "result_init\<lparr>step1_atot := Some (AtotOk reported PNone PNone)\<rparr>"
      "w\<lparr>log := log w @ [HttpGet atot_url],
         shared := (shared w)\<lparr>atot_text := PNone, input_wav := PNone\<rparr>\<rparr>"]
  obtain es where "log (snd (run_full_pipeline env w)) =
      log w @ [HttpGet atot_url, HttpGet ttot_url] @ es"
    unfolding run by auto
  then have "take 2 (new_events w (snd (run_full_pipeline env w))) =
      [HttpGet atot_url, HttpGet ttot_url]"
    by (simp add: new_events_def)
  with a g s1 show ?thesis by simp
qed

theorem lenient_recognize_witness:
  "atot_stage scenario_C_no_result (shared world_ready) =
     (Inr (AtotOk (PInt 7) PNone PNone),
      (shared world_ready)\<lparr>atot_text := PNone, input_wav := PNone\<rparr>) \<and>
   fst (get_atot scenario_C_no_result world_ready) = Inr (PInt 7, PNone, PNone) \<and>
   step1_atot (fst (run_full_pipeline scenario_C_no_result world_ready)) =
     Some (AtotOk (PInt 7) PNone PNone) \<and>
   take 2 (new_events world_ready (snd (run_full_pipeline scenario_C_no_result world_ready))) =
     [HttpGet atot_url, HttpGet ttot_url]"
proof -
  have r: "atot_server scenario_C_no_result =
      Responds \<lparr>status_code = 200, status_error_text = [],
                json = Inr (PDict [(''user_id'', PInt 7)]), content = []\<rparr>"
    by (simp add: scenario_C_no_result_def ok_json_def)
  have ok: "is_success \<lparr>status_code = 200, status_error_text = [],
                json = Inr (PDict [(''user_id'', PInt 7)]), content = []\<rparr>"
    by (simp add: is_success_def)
  have j: "json \<lparr>status_code = 200, status_error_text = [],
                json = Inr (PDict [(''user_id'', PInt 7)]), content = []\<rparr> =
           Inr (PDict [(''user_id'', PInt 7)])" by simp
  have lack: "map_of [(''user_id'', PInt 7)] ''result'' = None \<or>
     (\<exists>rs. map_of [(''user_id'', PInt 7)] ''result'' = Some (PDict rs) \<and>
           map_of rs ''details'' = None)" by simp
  from lenient_recognize [OF r ok j lack, of "shared world_ready" world_ready]
  show ?thesis by simp
qed

text \<open>
  C6 as first stated covers every 2xx body without the path. A body whose
  \<open>result\<close> is null has no such path either, and there \<^verbatim>\<open>.get\<close> raises on
  \<open>None\<close>: the stage fails, in both endpoints.
\<close>

theorem lenient_recognize_counterexample:
  "atot_server scenario_null_result =
     ok_json (PDict [(''user_id'', PInt 7), (''result'', PNone)]) \<and>
   \<not> reply_failed (atot_server scenario_null_result) \<and>
   \<not> has_details (PDict [(''user_id'', PInt 7), (''result'', PNone)]) \<and>
   fst (atot_stage scenario_null_result (shared world_ready)) =
     Inl (AttributeError none_has_no_get) \<and>
   fst (run_full_pipeline scenario_null_result world_ready) =
     result_init\<lparr>errors := [msg_atot_failed @ none_has_no_get],
                 step1_atot := Some (AtotFailed (msg_atot_failed @ none_has_no_get))\<rparr> \<and>
   fst (get_atot scenario_null_result world_ready) = Inl (msg_unknown_error @ none_has_no_get)"
proof -
  have g: "fst (get_atot scenario_null_result world_ready) =
      Inl (msg_unknown_error @ none_has_no_get)"
    by (simp add: get_atot_def scenario_null_result_def ok_json_def fetch_json_def
        raise_for_status_def is_success_def get_atot_store_def details_get_def
        none_has_no_get_def Let_def)
  have s: "atot_server scenario_null_result =
      ok_json (PDict [(''user_id'', PInt 7), (''result'', PNone)])"
    by (simp add: scenario_null_result_def)
  have f: "\<not> reply_failed (ok_json (PDict [(''user_id'', PInt 7), (''result'', PNone)]))"
    by (simp add: reply_failed_def ok_json_def is_success_def)
  have h: "\<not> has_details (PDict [(''user_id'', PInt 7), (''result'', PNone)])"
    by (simp add: has_details_def)
  have a: "fst (atot_stage scenario_null_result (shared world_ready)) =
      Inl (AttributeError none_has_no_get)"
    by (simp add: scenario_null_result_atot)
  have p: "fst (run_full_pipeline scenario_null_result world_ready) =
     result_init\<lparr>errors := [msg_atot_failed @ none_has_no_get],
                 step1_atot := Some (AtotFailed (msg_atot_failed @ none_has_no_get))\<rparr>"
    by (simp add: run_full_pipeline_fail [OF scenario_null_result_atot])
  from g f h a p show ?thesis unfolding s by simp
qed

text \<open>
  C7, amended. A run that reaches the commit appends exactly this record: the input
  reference as it is when it is truthy, and null otherwise (so also for the empty
  string); the recognized and the generated text as they are when truthy, and the empty
  string otherwise; as output reference, null when the Synthesize call failed or its body
  was empty, and the name of the output file when Synthesize answered 2xx with a
  non-empty body and the file was opened without error.
\<close>

theorem appended_record:
  assumes run: "w' = snd (run_full_pipeline env w) \<or> w' = snd (process_audio env w)"
      and reach: "DbCommit \<in> set (new_events w w')"
      and user: "db w USER_ID = Some u"
  shows "\<exists>out.
           db w' =
             (db w)(USER_ID \<mapsto>
               \<lparr>input_wav_list =
                  Some (or_empty (input_wav_list u) @
                    [if py_truthy (input_wav (shared w')) then input_wav (shared w') else PNone]),
                atot_text_list =
                  Some (or_empty (atot_text_list u) @
                    [if py_truthy (atot_text (shared w')) then atot_text (shared w') else PStr []]),
                ttot_text_list =
                  Some (or_empty (ttot_text_list u) @
                    [if py_truthy (ttot_text (shared w')) then ttot_text (shared w') else PStr []]),
                output_wav_list = Some (or_empty (output_wav_list u) @ [out])\<rparr>) \<and>
           (tts_failed env (ttot_text (shared w')) \<longrightarrow> out = PNone) \<and>
           (\<not> tts_failed env (ttot_text (shared w')) \<and> open_error env = None \<longrightarrow>
              out = PStr ''received_audio.wav'')"
proof -
  let ?out = "\<lambda>f. case f of None \<Rightarrow> PNone | Some n \<Rightarrow> if n \<noteq> [] then PStr n else PNone"
  have out: "(tts_failed env x \<longrightarrow> ?out (output_filename (fst (tts_block em h env x w0))) = PNone) \<and>
             (\<not> tts_failed env x \<and> open_error env = None \<longrightarrow>
                ?out (output_filename (fst (tts_block em h env x w0))) = PStr ''received_audio.wav'')"
    for em h x w0
  proof (cases "tts_failed env x")
    case True
    from tts_block_failed [OF True, of em h w0] show ?thesis using True by auto
  next
    case False
    show ?thesis
    proof (cases "open_error env")
      case None
      from tts_block_ok [OF False None, of em h w0] show ?thesis using False by simp
    next
      case (Some m)
      with False show ?thesis by simp
    qed
  qed
  from run show ?thesis
  proof
    assume w': "w' = snd (run_full_pipeline env w)"
    from reach [unfolded w'] obtain a s1 t s2 u0 where
      st: "atot_stage env (shared w) = (Inr a, s1)" "ttot_stage env s1 = (Inr t, s2)"
          "ttot_text s2 \<noteq> PNone" "db w USER_ID = Some u0"
      by (rule run_full_pipeline_commit)
    from st(4) user have u0: "u0 = u" by simp
    note r = run_full_pipeline_persist [OF st]
    show ?thesis
      unfolding w' r(1) r(2) u0 append_history_eq
      using out [where x = "ttot_text s2" and em = msg_tts_empty and h = pipeline_tts_error
          and ?w0.0 = w]
      by (intro exI [of _ "?out (output_filename
            (fst (tts_block msg_tts_empty pipeline_tts_error env (ttot_text s2) w)))"])
         (simp add: py_or_def)
  next
    assume w': "w' = snd (process_audio env w)"
    from reach [unfolded w'] obtain u0 where
      st: "ttot_text (shared w) \<noteq> PNone" "db w USER_ID = Some u0"
      by (rule process_audio_commit)
    from st(2) user have u0: "u0 = u" by simp
    note r = process_audio_persist [OF st]
    show ?thesis
      unfolding w' r(1) r(2) u0 append_history_eq
      using out [where x = "ttot_text (shared w)" and em = msg_tts_empty_dot
          and h = process_audio_tts_error and ?w0.0 = w]
      by (intro exI [of _ "?out (output_filename
            (fst (tts_block msg_tts_empty_dot process_audio_tts_error env
                    (ttot_text (shared w)) w)))"])
         (simp add: py_or_def)
  qed
qed

theorem appended_record_witness:
  "db (snd (run_full_pipeline scenario_A world_ready)) =
     (db world_ready)(USER_ID \<mapsto>
        \<lparr>input_wav_list = Some [PStr ''a.wav''], atot_text_list = Some [PStr ''hello''],
         ttot_text_list = Some [PStr ''hi there''],
         output_wav_list = Some [PStr ''received_audio.wav'']\<rparr>)"
proof -
  have n: "ttot_text (shared world_ready\<lparr>atot_text := PStr ''hello'', input_wav := PStr ''a.wav'',
             ttot_text := PStr ''hi there''\<rparr>) \<noteq> PNone" by simp
  have u: "db world_ready USER_ID = Some empty_user" by (simp add: world_ready_def)
  have op: "open_error scenario_A = None" by (simp add: scenario_A_def)
  have s: "shared (snd (run_full_pipeline scenario_A world_ready)) =
      shared world_ready\<lparr>atot_text := PStr ''hello'', input_wav := PStr ''a.wav'',
             ttot_text := PStr ''hi there''\<rparr>"
    by (rule run_full_pipeline_persist(2) [OF scenario_A_atot scenario_A_ttot n u])
  have f: "\<not> tts_failed scenario_A x" for x
    by (simp add: tts_failed_def scenario_A_def ok_bytes_def is_success_def)
  from appended_record [OF disjI1 [OF refl] scenario_A_commit u]
  show ?thesis unfolding s by (auto simp add: f op empty_user_def)
qed

text \<open>
  C7 as first stated stores a present input reference as it is. An \<open>audio_url\<close>
  that is the empty string is present, and is stored as null.
\<close>

theorem appended_record_counterexample:
  "final_data (fst (run_full_pipeline scenario_empty_url world_ready)) =
     Some (PStr [], PStr ''hello'', PStr ''hi there'', Some ''received_audio.wav'') \<and>
   db (snd (run_full_pipeline scenario_empty_url world_ready)) USER_ID =
     Some \<lparr>input_wav_list = Some [PNone], atot_text_list = Some [PStr ''hello''],
           ttot_text_list = Some [PStr ''hi there''],
           output_wav_list = Some [PStr ''received_audio.wav'']\<rparr>"
proof -
  have n: "ttot_text (shared world_ready\<lparr>atot_text := PStr ''hello'', input_wav := PStr [],
             ttot_text := PStr ''hi there''\<rparr>) \<noteq> PNone" by simp
  have u: "db world_ready USER_ID = Some empty_user" by (simp add: world_ready_def)
  note r = run_full_pipeline_persist [OF scenario_empty_url_atot scenario_empty_url_ttot n u]
  show ?thesis
    unfolding r(1) r(4)
    by (simp add: scenario_empty_url_tts append_history_eq empty_user_def py_or_def)
qed

text \<open>
  C8. \<^verbatim>\<open>GET /users\<close> returns the stored histories, all of them and each once, in
  ascending order of the user id, each with every null column replaced by the empty
  list.
\<close>

theorem get_users_ascending:
  assumes "finite (dom d)"
  shows "sorted_wrt (<) (map uid (get_users d)) \<and>
         set (map uid (get_users d)) = dom d \<and>
         (\<forall>x \<in> set (get_users d).
            \<exists>r. d (uid x) = Some r \<and>
                ud_input_wav_list x = Some (or_empty (input_wav_list r)) \<and>
                ud_atot_text_list x = Some (or_empty (atot_text_list r)) \<and>
                ud_ttot_text_list x = Some (or_empty (ttot_text_list r)) \<and>
                ud_output_wav_list x = Some (or_empty (output_wav_list r)))"
proof -
  have u: "map uid (get_users d) = sorted_list_of_set (dom d)"
    by (simp add: get_users_uid query_all_keys [OF assms])
  have "\<exists>r. d (uid x) = Some r \<and>
                ud_input_wav_list x = Some (or_empty (input_wav_list r)) \<and>
                ud_atot_text_list x = Some (or_empty (atot_text_list r)) \<and>
                ud_ttot_text_list x = Some (or_empty (ttot_text_list r)) \<and>
                ud_output_wav_list x = Some (or_empty (output_wav_list r))"
    if "x \<in> set (get_users d)" for x
  proof -
    from get_users_rows [OF that] obtain r where
      r: "d (uid x) = Some r" and x: "x = normalized (uid x) r" by blast
    have "ud_input_wav_list x = Some (or_empty (input_wav_list r))"
      "ud_atot_text_list x = Some (or_empty (atot_text_list r))"
      "ud_ttot_text_list x = Some (or_empty (ttot_text_list r))"
      "ud_output_wav_list x = Some (or_empty (output_wav_list r))"
      by (subst x, simp add: normalized_def)+
    with r show ?thesis by blast
  qed
  with u assms show ?thesis by simp
qed

theorem get_users_ascending_witness:
  "map uid (get_users two_users) = [1, 2] \<and>
   ud_input_wav_list (last (get_users two_users)) = Some []"
proof -
  have f: "finite (dom two_users)" by (simp add: two_users_dom)
  note t = get_users_ascending [OF f]
  from t have s: "sorted_wrt (<) (map uid (get_users two_users))"
    and e: "set (map uid (get_users two_users)) = set [1, 2]"
    by (simp_all add: two_users_dom insert_commute)
  have "sorted_wrt (<) [1, 2 :: int]" by simp
  from strict_sorted_equal [OF s this e [symmetric]]
  have m: "map uid (get_users two_users) = [1, 2]" by simp
  then have ne: "get_users two_users \<noteq> []" by auto
  then have "last (get_users two_users) \<in> set (get_users two_users)" by simp
  with t obtain r where
    r: "two_users (uid (last (get_users two_users))) = Some r" and
    i: "ud_input_wav_list (last (get_users two_users)) = Some (or_empty (input_wav_list r))"
    by blast
  from ne have "uid (last (get_users two_users)) = last (map uid (get_users two_users))"
    by (simp add: last_map)
  with m have "uid (last (get_users two_users)) = 2" by simp
  with r have "r = empty_user\<lparr>input_wav_list := None\<rparr>" by (simp add: two_users_def)
  with i m show ?thesis by simp
qed

text \<open>
  C9. \<^verbatim>\<open>/process-audio\<close> called while \<open>SharedData.ttot_text\<close> is \<open>None\<close> returns the
  error dict, issues no request and no commit, and leaves the database and the shared
  attributes as they were.
\<close>

theorem process_audio_without_text:
  assumes "ttot_text (shared w) = PNone"
  shows "fst (process_audio env w) = Inl msg_no_ttot_text \<and>
         new_events w (snd (process_audio env w)) = [] \<and>
         db (snd (process_audio env w)) = db w \<and>
         shared (snd (process_audio env w)) = shared w"
  using assms by (simp add: process_audio_def new_events_def)

theorem process_audio_without_text_witness:
  "fst (process_audio scenario_A world_ready) = Inl msg_no_ttot_text \<and>
   new_events world_ready (snd (process_audio scenario_A world_ready)) = [] \<and>
   db (snd (process_audio scenario_A world_ready)) = db world_ready \<and>
   shared (snd (process_audio scenario_A world_ready)) = shared world_ready"
proof -
  have "ttot_text (shared world_ready) = PNone"
    by (simp add: world_ready_def world_init_def SharedData_init_def)
  from process_audio_without_text [OF this] show ?thesis .
qed

text \<open>
  C10. Every endpoint of the pipeline changes the database at the key 10 at most:
  the rows of all other users stay as they are, and \<^verbatim>\<open>/atot\<close> and \<^verbatim>\<open>/ttot\<close> change no
  row. The \<open>user_id\<close> values in the Recognize and Generate bodies are echoed in the
  result and change nothing else: putting other values there leaves the whole outcome of
  the run outside the result (database, files, requests, shared attributes) the same, and
  the \<open>user_id\<close> that \<^verbatim>\<open>/atot\<close> stored does not change what \<^verbatim>\<open>/process-audio\<close>
  writes.
\<close>

theorem history_targets_fixed_user:
  "(k \<noteq> USER_ID \<longrightarrow>
      db (snd (run_full_pipeline env w)) k = db w k \<and>
      db (snd (process_audio env w)) k = db w k) \<and>
   db (snd (get_atot env w)) = db w \<and>
   db (snd (get_ttot env w)) = db w \<and>
   snd (run_full_pipeline (report_user_ids a b env) w) = snd (run_full_pipeline env w) \<and>
   db (snd (process_audio env (w\<lparr>shared := (shared w)\<lparr>user_id := a\<rparr>\<rparr>))) =
     db (snd (process_audio env w)) \<and>
   (\<forall>x i t. step1_atot (fst (run_full_pipeline (report_user_ids a b env) w)) =
              Some (AtotOk x i t) \<longrightarrow> x = a) \<and>
   (\<forall>x t. step2_ttot (fst (run_full_pipeline (report_user_ids a b env) w)) =
            Some (TtotOk x t) \<longrightarrow> x = b)"
  using run_full_pipeline_db [of k env w] process_audio_db [of k env w]
    get_atot_db [of env w] get_ttot_db [of env w] run_full_pipeline_world [of a b env w]
    process_audio_user_id [where env = env and w = w and v = a]
    run_full_pipeline_echo [of a b env w] run_full_pipeline_echo2 [of a b env w]
  by blast

theorem history_targets_fixed_user_witness:
  "db (snd (run_full_pipeline scenario_A world_ready)) 7 = db world_ready 7 \<and>
   db (snd (process_audio scenario_A world_ready)) 7 = db world_ready 7 \<and>
   snd (run_full_pipeline (report_user_ids (PInt 3) (PInt 4) scenario_A) world_ready) =
     snd (run_full_pipeline scenario_A world_ready) \<and>
   step1_atot (fst (run_full_pipeline (report_user_ids (PInt 3) (PInt 4) scenario_A) world_ready)) =
     Some (AtotOk (PInt 3) (PStr ''a.wav'') (PStr ''hello'')) \<and>
   step2_ttot (fst (run_full_pipeline (report_user_ids (PInt 3) (PInt 4) scenario_A) world_ready)) =
     Some (TtotOk (PInt 4) (PStr ''hi there''))"
proof -
  have k: "(7::int) \<noteq> USER_ID" by (simp add: USER_ID_def)
  have a: "atot_stage (report_user_ids (PInt 3) (PInt 4) scenario_A) s =
      (Inr (AtotOk (PInt 3) (PStr ''a.wav'') (PStr ''hello'')),
       s\<lparr>atot_text := PStr ''hello'', input_wav := PStr ''a.wav''\<rparr>)" for s
    by (simp add: atot_stage_report scenario_A_atot)
  have t: "ttot_stage (report_user_ids (PInt 3) (PInt 4) scenario_A) s =
      (Inr (TtotOk (PInt 4) (PStr ''hi there'')), s\<lparr>ttot_text := PStr ''hi there''\<rparr>)" for s
    by (simp add: ttot_stage_report scenario_A_ttot)
  have n: "ttot_text (shared world_ready\<lparr>atot_text := PStr ''hello'', input_wav := PStr ''a.wav'',
             ttot_text := PStr ''hi there''\<rparr>) \<noteq> PNone" by simp
  have u: "db world_ready USER_ID = Some empty_user" by (simp add: world_ready_def)
  note r = run_full_pipeline_persist(4) [OF a t n u]
  from history_targets_fixed_user [of 7 scenario_A world_ready "PInt 3" "PInt 4"] k
  show ?thesis unfolding r by simp
qed

end
